theory Spec2Isabelle
  imports Complex_Main "HOL-Library.AList"
begin

section \<open>Strings and character classes\<close>

text \<open>
  A JavaScript string is a sequence of UTF-16 code units; \<open>length\<close>, \<open>includes\<close>,
  \<open>replace\<close> and the regular expressions of the source (none has the \<open>u\<close> flag) all
  work on code units. A code unit is modelled by its number.
\<close>

type_synonym jstring = "nat list"

definition is_digit :: "nat \<Rightarrow> bool" where
  \<comment> \<open>\<open>\d\<close>\<close>
  "is_digit c = (48 \<le> c \<and> c \<le> 57)"

definition is_word :: "nat \<Rightarrow> bool" where
  \<comment> \<open>\<open>\w\<close>, that is \<open>[A-Za-z0-9_]\<close>\<close>
  "is_word c = ((48 \<le> c \<and> c \<le> 57) \<or> (65 \<le> c \<and> c \<le> 90) \<or> c = 95 \<or> (97 \<le> c \<and> c \<le> 122))"

definition is_hangul :: "nat \<Rightarrow> bool" where
  \<comment> \<open>the range U+AC00 to U+D7A3 of the Hangul syllables\<close>
  "is_hangul c = (44032 \<le> c \<and> c \<le> 55203)"

definition is_space :: "nat \<Rightarrow> bool" where
  \<comment> \<open>\<open>\s\<close>: the white space and line terminator code points of ECMAScript\<close>
  "is_space c = (c \<in> set [9, 10, 11, 12, 13, 32, 160, 5760, 8232, 8233, 8239, 8287, 12288, 65279]
                 \<or> (8192 \<le> c \<and> c \<le> 8202))"

definition is_bracket :: "nat \<Rightarrow> bool" where
  \<comment> \<open>the class of round, square and curly brackets, double quote and apostrophe\<close>
  "is_bracket c = (c \<in> set [40, 41, 91, 93, 123, 125, 34, 39])"

definition replaceAll :: "nat \<Rightarrow> jstring \<Rightarrow> jstring \<Rightarrow> jstring" where
  \<comment> \<open>\<open>s.replace(new RegExp(w, 'g'), r)\<close> for a pattern of one ordinary code unit\<close>
  "replaceAll w r s = concat (map (\<lambda>c. if c = w then r else [c]) s)"

section \<open>Correction of recognition errors\<close>

definition corrections :: "(nat \<times> jstring) list" where
  \<comment> \<open>the object literal of \<open>correctOCRErrors\<close>, in the order it is written\<close>
  "corrections =
    [(12615, [111]), (12609, [109]), (12596, [110]), (12601, [114]),
     (12613, [115]), (12620, [116]), (12621, [112]), (12622, [104]),
     (49, [108]), (108, [49]), (48, [111]), (111, [48]), (53, [115]), (115, [53]),
     (183, []), (8226, []), (65293, [45]), (8212, [45]),
     (160, [32]), (8201, [32]), (8203, [])]"

definition object_entries :: "(nat \<times> 'v) list \<Rightarrow> (nat \<times> 'v) list" where
  \<comment> \<open>\<open>Object.entries\<close> on an object whose keys are single code units: the keys that are
      array indices (the digits) come first, in ascending order, then the other keys in
      the order of their creation\<close>
  "object_entries kvs =
     sort_key fst (filter (\<lambda>kv. is_digit (fst kv)) kvs) @ filter (\<lambda>kv. \<not> is_digit (fst kv)) kvs"

definition correctOCRErrors :: "jstring \<Rightarrow> jstring" where
  "correctOCRErrors text =
     foldl (\<lambda>corrected (wrong, correct). replaceAll wrong correct corrected) text
       (object_entries corrections)"

section \<open>Lower case\<close>

text \<open>
  \<open>String.prototype.toLowerCase\<close> belongs to the language, not to the repository. The
  functions that call it take it as the parameter \<open>lower\<close>. What the proofs need of it is
  stated in \<open>lower_case_laws\<close>: its result holds no capital letter of Basic Latin, and it
  leaves a string of digits, small Latin letters and Hangul syllables as it is.
  \<open>toLowerCase_latin\<close> is the function on texts whose only cased letters are those of
  Basic Latin; the concrete evaluations use it.
\<close>

definition is_lower_latin :: "nat \<Rightarrow> bool" where
  "is_lower_latin c = (97 \<le> c \<and> c \<le> 122)"

definition is_upper_latin :: "nat \<Rightarrow> bool" where
  "is_upper_latin c = (65 \<le> c \<and> c \<le> 90)"

definition is_plain :: "nat \<Rightarrow> bool" where
  "is_plain c = (is_digit c \<or> is_lower_latin c \<or> is_hangul c)"

definition lower_case_laws :: "(jstring \<Rightarrow> jstring) \<Rightarrow> bool" where
  "lower_case_laws lower =
     ((\<forall>s. list_all (\<lambda>c. \<not> is_upper_latin c) (lower s))
      \<and> (\<forall>s. list_all is_plain s \<longrightarrow> lower s = s))"

definition toLowerCase_latin :: "jstring \<Rightarrow> jstring" where
  "toLowerCase_latin s = map (\<lambda>c. if is_upper_latin c then c + 32 else c) s"

section \<open>Normalisation\<close>

definition normalizeText :: "(jstring \<Rightarrow> jstring) \<Rightarrow> jstring \<Rightarrow> jstring" where
  "normalizeText lower text =
     filter (\<lambda>c. is_word c \<or> is_hangul c)
       (filter (\<lambda>c. \<not> (is_space c \<or> c = 45 \<or> c = 95 \<or> c = 183 \<or> c = 8226))
         (filter (\<lambda>c. \<not> is_bracket c) (lower text)))"

section \<open>String similarity\<close>

fun str_includes :: "jstring \<Rightarrow> jstring \<Rightarrow> bool" where
  \<comment> \<open>\<open>s.includes(t)\<close>: \<open>t\<close> occurs in \<open>s\<close> as a run of consecutive code units\<close>
  "str_includes [] t = (t = [])"
| "str_includes (c # cs) t = (take (length t) (c # cs) = t \<or> str_includes cs t)"

definition new_Set :: "'a list \<Rightarrow> 'a list" where
  \<comment> \<open>\<open>new Set(xs)\<close>, as the list of its members in insertion order\<close>
  "new_Set xs = foldl (\<lambda>members x. if x \<in> set members then members else members @ [x]) [] xs"

definition calculateStringSimilarity :: "(jstring \<Rightarrow> jstring) \<Rightarrow> jstring \<Rightarrow> jstring \<Rightarrow> rat" where
  "calculateStringSimilarity lower s1 s2 =
     (if s1 = s2 then 1
      else if length s1 = 0 \<or> length s2 = 0 then 0
      else
        let normalized1 = normalizeText lower (correctOCRErrors s1);
            normalized2 = normalizeText lower (correctOCRErrors s2)
        in if normalized1 = normalized2 then 1
           else
             let set1 = new_Set normalized1;
                 set2 = new_Set normalized2;
                 intersection = new_Set (filter (\<lambda>x. x \<in> set set2) set1);
                 union = new_Set (set1 @ set2);
                 jaccardSimilarity = of_nat (length intersection) / of_nat (length union);
                 substringBonus = max (if str_includes normalized1 normalized2 then 2 / 10 else 0)
                                      (if str_includes normalized2 normalized1 then 2 / 10 else 0)
             in min 1 (jaccardSimilarity + substringBonus))"

section \<open>Catalog entries and match results\<close>

text \<open>
  A catalog entry is an untyped document. The search reads its \<open>id\<close>, \<open>name\<close>,
  \<open>hazard_level\<close> and \<open>aliases\<close>; a \<open>name\<close> or \<open>aliases\<close> that the document lacks is
  \<open>None\<close>, and so is a missing \<open>hazard_level\<close>. A result is the entry spread together
  with the fields of its best match, which the record extension expresses. Scores are
  JavaScript numbers; they are modelled as exact rationals. The text \<open>matchDetails\<close>,
  made for display only, is left out.
\<close>

datatype js_error = TypeError

datatype match_type = Exact | Normalized_exact | Partial | Fuzzy

record additive =
  entry_id :: jstring
  name :: "jstring option"
  hazard_level :: "jstring option"
  aliases :: "jstring list option"

record best_match =
  matchType :: match_type
  matchScore :: rat
  matchedTerm :: jstring

record match_result = additive +
  matchType :: match_type
  matchScore :: rat
  matchedTerm :: jstring

definition spread :: "additive \<Rightarrow> best_match \<Rightarrow> match_result" where
  \<comment> \<open>the object literal that spreads the entry, then the best match\<close>
  "spread a b =
     \<lparr>entry_id = entry_id a, name = name a, hazard_level = hazard_level a, aliases = aliases a,
      matchType = best_match.matchType b, matchScore = best_match.matchScore b,
      matchedTerm = best_match.matchedTerm b\<rparr>"

section \<open>Scoring one keyword against one entry\<close>

datatype 'a loop_step = Break 'a | Continue 'a

definition isPartialMatch :: "(jstring \<Rightarrow> jstring) \<Rightarrow> jstring \<Rightarrow> jstring \<Rightarrow> bool" where
  "isPartialMatch lower keyword searchTerm =
     (let normalizedKeyword = normalizeText lower (correctOCRErrors keyword);
          normalizedSearchTerm = normalizeText lower (correctOCRErrors searchTerm)
      in str_includes searchTerm (lower keyword)
         \<or> str_includes normalizedSearchTerm normalizedKeyword
         \<or> str_includes (lower keyword) searchTerm
         \<or> str_includes normalizedKeyword normalizedSearchTerm)"

definition scoreTerm ::
  "(jstring \<Rightarrow> jstring) \<Rightarrow> jstring \<Rightarrow> jstring \<Rightarrow> best_match option \<times> rat
   \<Rightarrow> (best_match option \<times> rat) loop_step" where
  \<comment> \<open>one turn of the loop over \<open>allSearchTerms\<close>, on the pair \<open>(bestMatch, bestScore)\<close>\<close>
  "scoreTerm lower keyword searchTerm best =
     (let bestMatch = fst best; bestScore = snd best;
          normalizedKeyword = normalizeText lower (correctOCRErrors keyword);
          normalizedSearchTerm = normalizeText lower (correctOCRErrors searchTerm)
      in if searchTerm = lower keyword then
           Break (Some \<lparr>best_match.matchType = Exact, best_match.matchScore = 1,
                         best_match.matchedTerm = keyword\<rparr>, bestScore)
         else if normalizedSearchTerm = normalizedKeyword \<and> length normalizedKeyword > 2 then
           (if bestScore < 95 / 100 then
              Continue (Some \<lparr>best_match.matchType = Normalized_exact,
                               best_match.matchScore = 95 / 100,
                               best_match.matchedTerm = keyword\<rparr>, 95 / 100)
            else Continue (bestMatch, bestScore))
         else if isPartialMatch lower keyword searchTerm then
           (let longerLength = max (max (length searchTerm) (length keyword))
                                   (max (length normalizedSearchTerm) (length normalizedKeyword));
                shorterLength = min (min (length searchTerm) (length keyword))
                                    (min (length normalizedSearchTerm) (length normalizedKeyword));
                score = min (9 / 10) ((of_nat shorterLength / of_nat longerLength) * (85 / 100))
            in if score > bestScore then
                 Continue (Some \<lparr>best_match.matchType = Partial, best_match.matchScore = score,
                                  best_match.matchedTerm = keyword\<rparr>, score)
               else Continue (bestMatch, bestScore))
         else
           (let similarity = calculateStringSimilarity lower keyword searchTerm;
                threshold = (if length keyword > 4 then 3 / 10 else 5 / 10)
            in if similarity \<ge> threshold \<and> similarity * (7 / 10) > bestScore then
                 Continue (Some \<lparr>best_match.matchType = Fuzzy,
                                  best_match.matchScore = similarity * (7 / 10),
                                  best_match.matchedTerm = keyword\<rparr>, similarity * (7 / 10))
               else Continue (bestMatch, bestScore)))"

fun scoreTerms ::
  "(jstring \<Rightarrow> jstring) \<Rightarrow> jstring \<Rightarrow> jstring list \<Rightarrow> best_match option \<times> rat
   \<Rightarrow> best_match option \<times> rat" where
  "scoreTerms lower keyword [] best = best"
| "scoreTerms lower keyword (searchTerm # rest) best =
     (case scoreTerm lower keyword searchTerm best of
        Break best' \<Rightarrow> best'
      | Continue best' \<Rightarrow> scoreTerms lower keyword rest best')"

fun findAdditiveMatches ::
  "(jstring \<Rightarrow> jstring) \<Rightarrow> jstring \<Rightarrow> additive list \<Rightarrow> js_error + match_result list" where
  \<comment> \<open>an entry without \<open>name\<close> or \<open>aliases\<close> makes \<open>toLowerCase\<close> or \<open>map\<close> raise, which
      ends the whole call\<close>
  "findAdditiveMatches lower keyword [] = Inr []"
| "findAdditiveMatches lower keyword (entry # rest) =
     (case name entry of
        None \<Rightarrow> Inl TypeError
      | Some additiveName \<Rightarrow>
         (case aliases entry of
            None \<Rightarrow> Inl TypeError
          | Some als \<Rightarrow>
             (let allSearchTerms = lower additiveName # map lower als;
                  best = scoreTerms lower keyword allSearchTerms (None, 0);
                  pushed = (case fst best of
                              Some bestMatch \<Rightarrow>
                                if snd best > 2 / 10 then [spread entry bestMatch] else []
                            | None \<Rightarrow> [])
              in case findAdditiveMatches lower keyword rest of
                   Inl e \<Rightarrow> Inl e
                 | Inr matches \<Rightarrow> Inr (pushed @ matches))))"

section \<open>Keyword extraction\<close>

definition importantAdditiveKeywords :: "jstring list" where
  "importantAdditiveKeywords =
    [[49328, 46020, 51312, 51208, 51228], [54693, 48120, 51613, 51652, 51228],
     [44396, 50500, 44160], [51092, 53444, 44160], [51204, 48516],
     [48320, 49457, 51204, 48516], [44544, 47336, 53584], [51064, 49328],
     [54252, 46020, 45817], [51221, 48177, 45817], [53664, 53076, 54168, 47204],
     [48708, 53440, 48124], [51060, 49828, 53944]]"

definition commonWords :: "jstring list" where
  \<comment> \<open>the English words from \<open>and\<close> to \<open>total\<close>, then the Korean ones\<close>
  "commonWords =
    [[97, 110, 100], [111, 114], [116, 104, 101], [97], [97, 110], [105, 110], [111, 110],
     [97, 116], [116, 111], [102, 111, 114], [111, 102], [119, 105, 116, 104],
     [99, 111, 110, 116, 97, 105, 110, 115], [105, 110, 99, 108, 117, 100, 101, 115],
     [108, 101, 115, 115], [116, 104, 97, 110], [109, 111, 114, 101], [101, 97, 99, 104],
     [112, 101, 114], [116, 111, 116, 97, 108], [44536, 47532, 44256], [46608, 45716],
     [48143], [46321], [54252, 54632], [54632, 47049], [51060, 54616], [44592, 53440],
     [44033, 51333], [49324, 50857], [51228, 54408], [49885, 54408], [44397, 49328],
     [51473, 44397, 49328], [48120, 44397, 49328], [54840, 51452, 49328],
     [47568, 47112, 51060, 49884, 50500, 49328], [47732, 47448], [49828, 54532, 47448],
     [48660, 47085], [48516, 47568], [52628, 52636, 47932], [49884, 51592, 45789],
     [48288, 51060, 49828], [50577, 45392], [51068, 44620, 51648], [52992, 51060],
     [54632, 51008], [50896, 47308, 47749]]"

definition isCommonWord :: "(jstring \<Rightarrow> jstring) \<Rightarrow> jstring \<Rightarrow> bool" where
  "isCommonWord lower word =
     (if list_ex (\<lambda>keyword. str_includes (lower word) (lower keyword)
                           \<or> str_includes (lower keyword) (lower word))
           importantAdditiveKeywords
      then False
      else lower word \<in> set commonWords)"

fun squeeze_spaces :: "bool \<Rightarrow> jstring \<Rightarrow> jstring" where
  \<comment> \<open>the replacement of every run of white space by one space; the flag tells that
      the run has begun\<close>
  "squeeze_spaces in_run [] = []"
| "squeeze_spaces in_run (c # cs) =
     (if is_space c then (if in_run then squeeze_spaces True cs else 32 # squeeze_spaces True cs)
      else c # squeeze_spaces False cs)"

definition trim :: "jstring \<Rightarrow> jstring" where
  "trim s = rev (dropWhile is_space (rev (dropWhile is_space s)))"

definition is_delimiter :: "nat \<Rightarrow> bool" where
  \<comment> \<open>the class of the splitting expression: comma, line feed, semicolon, colon, middle
      dot, bullet, hyphen, slash, bar, white space and the brackets\<close>
  "is_delimiter c =
     (c \<in> set [44, 10, 59, 58, 183, 8226, 45, 47, 124, 40, 41, 91, 93, 123, 125] \<or> is_space c)"

fun split_runs :: "(nat \<Rightarrow> bool) \<Rightarrow> bool \<Rightarrow> jstring \<Rightarrow> jstring \<Rightarrow> jstring list" where
  \<comment> \<open>\<open>split\<close> at every run of separators; \<open>piece\<close> is the piece read so far, the flag
      tells that a run of separators has begun\<close>
  "split_runs sep in_run piece [] = [piece]"
| "split_runs sep in_run piece (c # cs) =
     (if sep c then (if in_run then split_runs sep True piece cs
                     else piece # split_runs sep True [] cs)
      else split_runs sep False (piece @ [c]) cs)"

fun hangul_runs :: "jstring \<Rightarrow> jstring \<Rightarrow> jstring list" where
  \<comment> \<open>all matches of two or more Hangul syllables in a row; \<open>run\<close> is the run read so far\<close>
  "hangul_runs run [] = (if length run \<ge> 2 then [run] else [])"
| "hangul_runs run (c # cs) =
     (if is_hangul c then hangul_runs (run @ [c]) cs
      else if length run \<ge> 2 then run # hangul_runs [] cs
      else hangul_runs [] cs)"

fun match_numbered :: "jstring \<Rightarrow> (jstring \<times> jstring \<times> jstring) option" where
  \<comment> \<open>the first match of Hangul syllables, then digits, then Hangul syllables or nothing:
      its three groups. A match starts at the leftmost place where a run of syllables is
      followed by a digit; each group is as long as it can be.\<close>
  "match_numbered [] = None"
| "match_numbered (c # cs) =
     (let rest = dropWhile is_hangul (c # cs)
      in if is_hangul c \<and> rest \<noteq> [] \<and> is_digit (hd rest) then
           Some (takeWhile is_hangul (c # cs), takeWhile is_digit rest,
                 takeWhile is_hangul (dropWhile is_digit rest))
         else match_numbered cs)"

definition numbered_parts :: "jstring \<Rightarrow> jstring list" where
  \<comment> \<open>what one keyword adds to \<open>numberedAdditives\<close>\<close>
  "numbered_parts keyword =
     (case match_numbered keyword of
        None \<Rightarrow> []
      | Some (g1, g2, g3) \<Rightarrow>
          [keyword] @ (if length g1 > 1 then [g1] else [])
          @ (if length g3 > 0 then [g2 @ g3] else []))"

datatype js_number = Num rat | NaN

definition sort_compare :: "('a \<Rightarrow> 'a \<Rightarrow> js_number) \<Rightarrow> 'a \<Rightarrow> 'a \<Rightarrow> rat" where
  \<comment> \<open>the number \<open>sort\<close> takes from a call of the comparison function: \<open>NaN\<close> counts as 0\<close>
  "sort_compare cmp x y = (case cmp x y of NaN \<Rightarrow> 0 | Num v \<Rightarrow> v)"

fun insert_sorted :: "('a \<Rightarrow> 'a \<Rightarrow> js_number) \<Rightarrow> 'a \<Rightarrow> 'a list \<Rightarrow> 'a list" where
  "insert_sorted cmp x [] = [x]"
| "insert_sorted cmp x (y # ys) =
     (if sort_compare cmp x y \<le> 0 then x # y # ys else y # insert_sorted cmp x ys)"

definition js_sort :: "('a \<Rightarrow> 'a \<Rightarrow> js_number) \<Rightarrow> 'a list \<Rightarrow> 'a list" where
  \<comment> \<open>\<open>Array.prototype.sort\<close> with a comparison function: the sort is stable, so with a
      consistent comparison its result is the one a stable insertion sort gives. With a
      comparison that is not consistent the language leaves the order to the engine; two
      elements that compare as equal keep their order in every engine.\<close>
  "js_sort cmp xs = foldr (insert_sorted cmp) xs []"

datatype js_value = Str jstring | Undefined | Null | Other

text \<open>
  The constants of \<open>normalizeAndExtractKeywords\<close> are functions of the constants they are
  computed from, under their own names.
\<close>

definition normalized :: "(jstring \<Rightarrow> jstring) \<Rightarrow> jstring \<Rightarrow> jstring" where
  "normalized lower correctedText =
     trim
       (map (\<lambda>c. if is_word c \<or> is_hangul c \<or> is_space c
                    \<or> c \<in> set [44, 59, 58, 183, 8226, 45] then c else 32)
          (squeeze_spaces False
             (map (\<lambda>c. if is_bracket c then 32 else c) (lower correctedText))))"

definition rawKeywords :: "(jstring \<Rightarrow> jstring) \<Rightarrow> jstring \<Rightarrow> jstring list" where
  "rawKeywords lower normalizedText =
     filter (\<lambda>keyword. \<not> isCommonWord lower keyword)
       (filter (\<lambda>keyword. length keyword > 1)
          (map trim (split_runs is_delimiter False [] normalizedText)))"

definition koreanWords :: "jstring \<Rightarrow> jstring list" where
  "koreanWords text = hangul_runs [] text"

definition numberedAdditives :: "jstring list \<Rightarrow> jstring list" where
  "numberedAdditives keywords = concat (map numbered_parts keywords)"

definition spacelessWords :: "jstring list \<Rightarrow> jstring list" where
  "spacelessWords raw =
     map (filter (\<lambda>c. \<not> is_space c)) (filter (\<lambda>word. 32 \<in> set word) raw)"

definition uniqueKeywords :: "jstring list \<Rightarrow> jstring list" where
  "uniqueKeywords allKeywords =
     take 15
       (js_sort (\<lambda>a b. Num (of_nat (length b) - of_nat (length a)))
          (filter (\<lambda>keyword. length keyword > 1) (new_Set allKeywords)))"

definition normalizeAndExtractKeywords ::
  "(jstring \<Rightarrow> jstring) \<Rightarrow> js_value \<Rightarrow> js_error + jstring list" where
  \<comment> \<open>a value that is no string has no method \<open>replace\<close>: the call inside
      \<open>correctOCRErrors\<close> raises\<close>
  "normalizeAndExtractKeywords lower v =
     (case v of
        Str text \<Rightarrow>
          (let correctedText = correctOCRErrors text;
               raw = rawKeywords lower (normalized lower correctedText);
               korean = koreanWords text;
               allKeywords =
                 raw
                 @ filter (\<lambda>word. length word > 1 \<and> \<not> isCommonWord lower word) korean
                 @ numberedAdditives (raw @ korean) @ spacelessWords raw
           in Inr (uniqueKeywords allKeywords))
      | _ \<Rightarrow> Inl TypeError)"

section \<open>The catalog cache\<close>

text \<open>
  The two module variables form the state. A promise is \<open>Fulfilled\<close> with the catalog or
  \<open>Rejected\<close> with an error. \<open>getCachedAdditives\<close> is the call awaited to its end; \<open>Inl\<close> is
  the error its promise is rejected with. The store answers the call with a \<open>store_reply\<close>:
  \<open>Throws\<close> when \<open>getDb\<close> or \<open>collection\<close> raises before anything is awaited, \<open>Rejects\<close>
  when the promise of \<open>get\<close> is rejected, \<open>Snapshot docs\<close> when it resolves to the
  documents \<open>docs\<close>.

  The parameter \<open>seed\<close> is the value of the imported binding \<open>additiveData\<close>: \<open>Some\<close> of the
  bundled snapshot when the module \<open>seedData\<close> exports it, \<open>None\<close> when the binding is
  undefined. In this repository \<open>seedData\<close> declares \<open>additiveData\<close> and exports only
  \<open>seedDatabase\<close>, so the binding is undefined: that value is the constant \<open>additiveData\<close>.
\<close>

datatype promise = Fulfilled "additive list" | Rejected js_error

record cache_state =
  additivesCache :: "additive list option"
  cacheLoadPromise :: "promise option"

datatype store_reply = Throws | Rejects | Snapshot "additive list"

definition additiveData :: "additive list option" where
  "additiveData = None"

definition fallback :: "additive list option \<Rightarrow> js_error + additive list" where
  \<comment> \<open>\<open>additiveData.map\<close> with a function that copies each entry; on an undefined binding
      the call raises\<close>
  "fallback seed = (case seed of None \<Rightarrow> Inl TypeError | Some snapshot \<Rightarrow> Inr snapshot)"

definition load_catalog :: "additive list option \<Rightarrow> store_reply \<Rightarrow> js_error + additive list" where
  \<comment> \<open>the value the loading function assigns to \<open>additivesCache\<close>, or the error that
      leaves it. An error of the fallback under \<open>try\<close> is caught by the \<open>catch\<close> block,
      whose own fallback raises it again.\<close>
  "load_catalog seed reply =
     (case reply of
        Snapshot docs \<Rightarrow>
          if docs \<noteq> [] then Inr docs
          else (case fallback seed of Inr snapshot \<Rightarrow> Inr snapshot | Inl e \<Rightarrow> fallback seed)
      | _ \<Rightarrow> fallback seed)"

definition getCachedAdditives ::
  "additive list option \<Rightarrow> store_reply \<Rightarrow> cache_state
   \<Rightarrow> (js_error + additive list) \<times> cache_state" where
  \<comment> \<open>When nothing was awaited before the failure, the function body has run to its end
      before the caller assigns the promise to \<open>cacheLoadPromise\<close>; otherwise the promise
      is assigned first and cleared when the load ends. A load that raises does not reach
      the statement that clears it.\<close>
  "getCachedAdditives seed reply st =
     (case additivesCache st of
        Some cached \<Rightarrow> (Inr cached, st)
      | None \<Rightarrow>
         (case cacheLoadPromise st of
            Some (Fulfilled loading) \<Rightarrow> (Inr loading, st)
          | Some (Rejected e) \<Rightarrow> (Inl e, st)
          | None \<Rightarrow>
             (case load_catalog seed reply of
                Inr loaded \<Rightarrow>
                  (Inr loaded,
                   \<lparr>additivesCache = Some loaded,
                    cacheLoadPromise = (if reply = Throws then Some (Fulfilled loaded) else None)\<rparr>)
              | Inl e \<Rightarrow>
                  (Inl e, \<lparr>additivesCache = None, cacheLoadPromise = Some (Rejected e)\<rparr>))))"

definition empty_cache :: cache_state where
  \<comment> \<open>the module as it is loaded: both variables \<open>null\<close>\<close>
  "empty_cache = \<lparr>additivesCache = None, cacheLoadPromise = None\<rparr>"

section \<open>Removing duplicates and ranking\<close>

definition hazardOrder :: "jstring \<rightharpoonup> nat" where
  \<comment> \<open>the own keys \<open>high\<close>, \<open>medium\<close> and \<open>low\<close> of the object literal\<close>
  "hazardOrder =
     map_of [([104, 105, 103, 104], 0), ([109, 101, 100, 105, 117, 109], 1), ([108, 111, 119], 2)]"

definition object_prototype_keys :: "jstring list" where
  \<comment> \<open>the names every object literal inherits: \<open>constructor\<close>, \<open>__defineGetter__\<close>,
      \<open>__defineSetter__\<close>, \<open>hasOwnProperty\<close>, \<open>__lookupGetter__\<close>, \<open>__lookupSetter__\<close>,
      \<open>isPrototypeOf\<close>, \<open>propertyIsEnumerable\<close>, \<open>toString\<close>, \<open>valueOf\<close>, \<open>__proto__\<close>,
      \<open>toLocaleString\<close>\<close>
  "object_prototype_keys =
    [[99, 111, 110, 115, 116, 114, 117, 99, 116, 111, 114],
     [95, 95, 100, 101, 102, 105, 110, 101, 71, 101, 116, 116, 101, 114, 95, 95],
     [95, 95, 100, 101, 102, 105, 110, 101, 83, 101, 116, 116, 101, 114, 95, 95],
     [104, 97, 115, 79, 119, 110, 80, 114, 111, 112, 101, 114, 116, 121],
     [95, 95, 108, 111, 111, 107, 117, 112, 71, 101, 116, 116, 101, 114, 95, 95],
     [95, 95, 108, 111, 111, 107, 117, 112, 83, 101, 116, 116, 101, 114, 95, 95],
     [105, 115, 80, 114, 111, 116, 111, 116, 121, 112, 101, 79, 102],
     [112, 114, 111, 112, 101, 114, 116, 121, 73, 115, 69, 110, 117, 109, 101, 114, 97, 98, 108, 101],
     [116, 111, 83, 116, 114, 105, 110, 103],
     [118, 97, 108, 117, 101, 79, 102],
     [95, 95, 112, 114, 111, 116, 111, 95, 95],
     [116, 111, 76, 111, 99, 97, 108, 101, 83, 116, 114, 105, 110, 103]]"

definition hazardRank :: "match_result \<Rightarrow> nat option" where
  \<comment> \<open>\<open>hazardOrder[a.hazard_level] ?? 3\<close>: the number of an own key, 3 for a level that is
      missing or names nothing, and \<open>None\<close> for a level that names an inherited member,
      which is a function or an object and no number\<close>
  "hazardRank a =
     (case hazard_level a of
        None \<Rightarrow> Some 3
      | Some level \<Rightarrow>
         (case hazardOrder level of
            Some rank \<Rightarrow> Some rank
          | None \<Rightarrow> if level \<in> set object_prototype_keys then None else Some 3))"

definition compareMatches :: "match_result \<Rightarrow> match_result \<Rightarrow> js_number" where
  \<comment> \<open>a difference with an operand that is no number is \<open>NaN\<close>\<close>
  "compareMatches a b =
     (if matchScore b \<noteq> matchScore a then Num (matchScore b - matchScore a)
      else (case (hazardRank a, hazardRank b) of
              (Some aHazardOrder, Some bHazardOrder) \<Rightarrow>
                Num (of_nat aHazardOrder - of_nat bHazardOrder)
            | _ \<Rightarrow> NaN))"

definition keep_best ::
  "(jstring \<times> match_result) list \<Rightarrow> match_result \<Rightarrow> (jstring \<times> match_result) list" where
  \<comment> \<open>one turn of the loop that fills \<open>uniqueMap\<close>; a \<open>Map\<close> keeps the place of a key
      whose value is replaced\<close>
  "keep_best uniqueMap a =
     (case map_of uniqueMap (entry_id a) of
        None \<Rightarrow> AList.update (entry_id a) a uniqueMap
      | Some existing \<Rightarrow>
          if matchScore a > matchScore existing then AList.update (entry_id a) a uniqueMap
          else uniqueMap)"

definition removeDuplicatesAndSort :: "match_result list \<Rightarrow> match_result list" where
  "removeDuplicatesAndSort additives =
     js_sort compareMatches (map snd (foldl keep_best [] additives))"

section \<open>The search\<close>

fun collect_matches ::
  "(jstring \<Rightarrow> jstring) \<Rightarrow> jstring list \<Rightarrow> additive list \<Rightarrow> match_result list
   \<Rightarrow> js_error + match_result list" where
  \<comment> \<open>the loop over the keywords, with \<open>foundAdditives\<close> as accumulator\<close>
  "collect_matches lower [] allAdditives foundAdditives = Inr foundAdditives"
| "collect_matches lower (keyword # rest) allAdditives foundAdditives =
     (case findAdditiveMatches lower keyword allAdditives of
        Inl e \<Rightarrow> Inl e
      | Inr matches \<Rightarrow>
          if length (foundAdditives @ matches) \<ge> 10 then Inr (foundAdditives @ matches)
          else collect_matches lower rest allAdditives (foundAdditives @ matches))"

definition found_matches ::
  "(jstring \<Rightarrow> jstring) \<Rightarrow> additive list \<Rightarrow> js_value \<Rightarrow> js_error + match_result list" where
  \<comment> \<open>\<open>foundAdditives\<close> at the end of the loop\<close>
  "found_matches lower allAdditives v =
     (case normalizeAndExtractKeywords lower v of
        Inl e \<Rightarrow> Inl e
      | Inr extracted \<Rightarrow>
          (let keywords = take 8 extracted
           in collect_matches lower (take 6 keywords) allAdditives []))"

definition search_body ::
  "(jstring \<Rightarrow> jstring) \<Rightarrow> additive list option \<Rightarrow> store_reply \<Rightarrow> cache_state \<Rightarrow> js_value
   \<Rightarrow> (js_error + match_result list) \<times> cache_state" where
  \<comment> \<open>the block under \<open>try\<close>\<close>
  "search_body lower seed reply st v =
     (case getCachedAdditives seed reply st of
        (Inl e, st') \<Rightarrow> (Inl e, st')
      | (Inr allAdditives, st') \<Rightarrow>
          (case found_matches lower allAdditives v of
             Inl e \<Rightarrow> Inl e
           | Inr foundAdditives \<Rightarrow> Inr (take 8 (removeDuplicatesAndSort foundAdditives)),
           st'))"

definition searchAdditivesWithFuzzyMatching ::
  "(jstring \<Rightarrow> jstring) \<Rightarrow> additive list option \<Rightarrow> store_reply \<Rightarrow> cache_state \<Rightarrow> js_value
   \<Rightarrow> (js_error + match_result list) \<times> cache_state" where
  \<comment> \<open>\<open>Inr\<close> is the array the promise resolves to, \<open>Inl\<close> an error that leaves the function\<close>
  "searchAdditivesWithFuzzyMatching lower seed reply st v =
     (case search_body lower seed reply st v of
        (Inl e, st') \<Rightarrow> (Inr [], st')
      | (Inr uniqueAdditives, st') \<Rightarrow> (Inr uniqueAdditives, st'))"

section \<open>Sample data\<close>

text \<open>
  \<open>citric_acid\<close> is the entry of the exact-hit scenario: id \<open>citric-acid\<close>, the name of
  three Hangul syllables U+AD6C U+C5F0 U+C0B0, no alias. \<open>sample_low\<close> and \<open>sample_high\<close>
  are two entries named \<open>abcd\<close> and \<open>abce\<close>, of hazard levels \<open>low\<close> and \<open>high\<close>.
\<close>

definition citric_acid :: additive where
  "citric_acid =
     \<lparr>entry_id = [99, 105, 116, 114, 105, 99, 45, 97, 99, 105, 100],
      name = Some [44396, 50672, 49328], hazard_level = Some [108, 111, 119],
      aliases = Some []\<rparr>"

definition sample_low :: additive where
  "sample_low =
     \<lparr>entry_id = [120, 49], name = Some [97, 98, 99, 100], hazard_level = Some [108, 111, 119],
      aliases = Some []\<rparr>"

definition sample_high :: additive where
  "sample_high =
     \<lparr>entry_id = [120, 50], name = Some [97, 98, 99, 101],
      hazard_level = Some [104, 105, 103, 104], aliases = Some []\<rparr>"

definition sample_odd :: additive where
  \<comment> \<open>an entry named \<open>abcf\<close> whose hazard level is the string \<open>toString\<close>\<close>
  "sample_odd =
     \<lparr>entry_id = [120, 51], name = Some [97, 98, 99, 102],
      hazard_level = Some [116, 111, 83, 116, 114, 105, 110, 103], aliases = Some []\<rparr>"

definition partial_hit :: "additive \<Rightarrow> rat \<Rightarrow> jstring \<Rightarrow> match_result" where
  \<comment> \<open>the result pushed for an entry whose best match is a partial one\<close>
  "partial_hit a score keyword =
     spread a \<lparr>best_match.matchType = Partial, best_match.matchScore = score,
               best_match.matchedTerm = keyword\<rparr>"

section \<open>Formulas as the specification words them\<close>

definition claimed_partial_score :: "jstring \<Rightarrow> jstring \<Rightarrow> rat" where
  \<comment> \<open>the score the specification gives to a partial match of two compared strings:
      the shorter length over the longer one, times 0.85, at most 0.9\<close>
  "claimed_partial_score a b =
     min (9 / 10)
       ((of_nat (min (length a) (length b)) / of_nat (max (length a) (length b))) * (85 / 100))"

definition character_set_jaccard :: "jstring \<Rightarrow> jstring \<Rightarrow> rat" where
  \<comment> \<open>the Jaccard similarity of the sets of characters of two strings\<close>
  "character_set_jaccard a b =
     of_nat (card (set a \<inter> set b)) / of_nat (card (set a \<union> set b))"

section \<open>Properties of the correction\<close>

lemma object_entries_corrections:
  "object_entries corrections =
    [(48, [111]), (49, [108]), (53, [115]),
     (12615, [111]), (12609, [109]), (12596, [110]), (12601, [114]),
     (12613, [115]), (12620, [116]), (12621, [112]), (12622, [104]),
     (108, [49]), (111, [48]), (115, [53]),
     (183, []), (8226, []), (65293, [45]), (8212, [45]),
     (160, [32]), (8201, [32]), (8203, [])]"
  by (simp add: object_entries_def corrections_def is_digit_def)

lemma replaceAll_append: "replaceAll w r (xs @ ys) = replaceAll w r xs @ replaceAll w r ys"
  by (simp add: replaceAll_def)

lemma foldl_replaceAll_append:
  "foldl (\<lambda>s (w, r). replaceAll w r s) (xs @ ys) kvs =
   foldl (\<lambda>s (w, r). replaceAll w r s) xs kvs @ foldl (\<lambda>s (w, r). replaceAll w r s) ys kvs"
  by (induction kvs arbitrary: xs ys) (auto simp: replaceAll_append)

lemma correctOCRErrors_append:
  "correctOCRErrors (xs @ ys) = correctOCRErrors xs @ correctOCRErrors ys"
  by (simp add: correctOCRErrors_def foldl_replaceAll_append)

lemma correctOCRErrors_Nil [simp]: "correctOCRErrors [] = []"
  by (simp add: correctOCRErrors_def object_entries_corrections replaceAll_def)

lemma correctOCRErrors_unit:
  "correctOCRErrors [c] =
     (if c \<in> {48, 111, 12615} then [48]
      else if c \<in> {49, 108} then [49]
      else if c \<in> {53, 115, 12613} then [53]
      else if c = 12609 then [109]
      else if c = 12596 then [110]
      else if c = 12601 then [114]
      else if c = 12620 then [116]
      else if c = 12621 then [112]
      else if c = 12622 then [104]
      else if c \<in> {183, 8226, 8203} then []
      else if c \<in> {65293, 8212} then [45]
      else if c \<in> {160, 8201} then [32]
      else [c])"
  by (simp add: correctOCRErrors_def object_entries_corrections replaceAll_def)

lemma correctOCRErrors_Cons:
  "correctOCRErrors (c # cs) = correctOCRErrors [c] @ correctOCRErrors cs"
  using correctOCRErrors_append [of "[c]" cs] by simp

lemma correctOCRErrors_concat:
  "correctOCRErrors text = concat (map (\<lambda>c. correctOCRErrors [c]) text)"
proof (induction "text")
  case Nil
  show ?case by simp
next
  case (Cons c cs)
  then show ?case using correctOCRErrors_Cons [of c cs] by simp
qed

lemma correctOCRErrors_unit_no_los:
  "108 \<notin> set (correctOCRErrors [c]) \<and> 111 \<notin> set (correctOCRErrors [c])
   \<and> 115 \<notin> set (correctOCRErrors [c])"
  by (simp add: correctOCRErrors_unit)

text \<open>
  C10. The substitutions are applied one after the other as global replacements, so each
  pair of lookalikes collapses to one character instead of being swapped. Every occurrence
  of a character is rewritten on its own (the correction distributes over concatenation);
  \<open>1\<close> and \<open>l\<close> both end as \<open>1\<close>, \<open>0\<close> and \<open>o\<close> as \<open>0\<close>, \<open>5\<close> and \<open>s\<close> as \<open>5\<close>, the jamo
  U+3147 ends as \<open>0\<close> and U+3145 as \<open>5\<close>, and no output contains \<open>l\<close>, \<open>o\<close> or \<open>s\<close>.
\<close>

theorem correctOCRErrors_collapses_lookalikes:
  "correctOCRErrors (xs @ ys) = correctOCRErrors xs @ correctOCRErrors ys
   \<and> correctOCRErrors [49] = [49] \<and> correctOCRErrors [108] = [49]
   \<and> correctOCRErrors [48] = [48] \<and> correctOCRErrors [111] = [48]
   \<and> correctOCRErrors [53] = [53] \<and> correctOCRErrors [115] = [53]
   \<and> correctOCRErrors [12615] = [48] \<and> correctOCRErrors [12613] = [53]
   \<and> 108 \<notin> set (correctOCRErrors text) \<and> 111 \<notin> set (correctOCRErrors text)
   \<and> 115 \<notin> set (correctOCRErrors text)"
proof -
  have "108 \<notin> set (correctOCRErrors text) \<and> 111 \<notin> set (correctOCRErrors text)
        \<and> 115 \<notin> set (correctOCRErrors text)"
    using correctOCRErrors_unit_no_los
    by (subst (1 2 3) correctOCRErrors_concat) auto
  then show ?thesis
    by (simp add: correctOCRErrors_append correctOCRErrors_unit)
qed

section \<open>Properties of the normalisation\<close>

lemma toLowerCase_latin_plain: "list_all is_plain s \<Longrightarrow> toLowerCase_latin s = s"
  by (induction s)
    (auto simp: toLowerCase_latin_def is_upper_latin_def is_plain_def is_digit_def
      is_lower_latin_def is_hangul_def)

lemma toLowerCase_latin_laws: "lower_case_laws toLowerCase_latin"
  unfolding lower_case_laws_def
proof (intro conjI allI impI)
  fix s
  show "list_all (\<lambda>c. \<not> is_upper_latin c) (toLowerCase_latin s)"
    by (induction s) (auto simp: toLowerCase_latin_def is_upper_latin_def)
next
  fix s
  assume "list_all is_plain s"
  then show "toLowerCase_latin s = s"
    by (rule toLowerCase_latin_plain)
qed

lemma normalizeText_plain:
  assumes "lower_case_laws lower"
  shows "list_all is_plain (normalizeText lower s)"
proof -
  have up: "\<And>c. c \<in> set (lower s) \<Longrightarrow> \<not> is_upper_latin c"
    using assms by (simp add: lower_case_laws_def list_all_iff)
  show ?thesis
    unfolding list_all_iff normalizeText_def
  proof
    fix c
    assume c: "c \<in> set (filter (\<lambda>c. is_word c \<or> is_hangul c)
       (filter (\<lambda>c. \<not> (is_space c \<or> c = 45 \<or> c = 95 \<or> c = 183 \<or> c = 8226))
         (filter (\<lambda>c. \<not> is_bracket c) (lower s))))"
    then have "\<not> is_upper_latin c" and "c \<noteq> 95" and "is_word c \<or> is_hangul c"
      using up by auto
    then show "is_plain c"
      by (auto simp: is_plain_def is_word_def is_upper_latin_def is_digit_def is_lower_latin_def)
  qed
qed

lemma plain_kept:
  assumes "is_plain c"
  shows "\<not> is_bracket c" and "\<not> (is_space c \<or> c = 45 \<or> c = 95 \<or> c = 183 \<or> c = 8226)"
    and "is_word c \<or> is_hangul c"
  using assms
  by (auto simp: is_plain_def is_bracket_def is_space_def is_word_def is_digit_def
      is_lower_latin_def is_hangul_def)

lemma normalizeText_of_plain:
  assumes "lower_case_laws lower" and "list_all is_plain s"
  shows "normalizeText lower s = s"
proof -
  have "lower s = s"
    using assms by (simp add: lower_case_laws_def)
  moreover have "filter (\<lambda>c. \<not> is_bracket c) s = s"
    using assms(2) plain_kept(1) by (simp add: list_all_iff)
  moreover have
    "filter (\<lambda>c. \<not> (is_space c \<or> c = 45 \<or> c = 95 \<or> c = 183 \<or> c = 8226)) s = s"
    using assms(2) plain_kept(2) by (simp add: list_all_iff)
  moreover have "filter (\<lambda>c. is_word c \<or> is_hangul c) s = s"
    using assms(2) plain_kept(3) by (simp add: list_all_iff)
  ultimately show ?thesis
    by (simp add: normalizeText_def)
qed

text \<open>
  C8. The normaliser is idempotent: normalising a normalised string changes nothing. This
  holds with any lower-casing that obeys \<open>lower_case_laws\<close>.
\<close>

theorem normalizeText_idempotent:
  assumes "lower_case_laws lower"
  shows "normalizeText lower (normalizeText lower x) = normalizeText lower x"
  using assms normalizeText_of_plain normalizeText_plain by blast

theorem normalizeText_idempotent_witness:
  "lower_case_laws toLowerCase_latin
   \<and> normalizeText toLowerCase_latin [72, 50, 79, 32, 40, 54889, 49353, 45, 53, 54840, 41] =
       [104, 50, 111, 54889, 49353, 53, 54840]
   \<and> normalizeText toLowerCase_latin
       (normalizeText toLowerCase_latin [72, 50, 79, 32, 40, 54889, 49353, 45, 53, 54840, 41]) =
     normalizeText toLowerCase_latin [72, 50, 79, 32, 40, 54889, 49353, 45, 53, 54840, 41]"
proof -
  have "normalizeText toLowerCase_latin [72, 50, 79, 32, 40, 54889, 49353, 45, 53, 54840, 41] =
       [104, 50, 111, 54889, 49353, 53, 54840]"
    by (simp add: normalizeText_def toLowerCase_latin_def is_upper_latin_def is_bracket_def
        is_space_def is_word_def is_hangul_def)
  then show ?thesis
    using toLowerCase_latin_laws
      normalizeText_idempotent [OF toLowerCase_latin_laws,
        of "[72, 50, 79, 32, 40, 54889, 49353, 45, 53, 54840, 41]"]
    by simp
qed

section \<open>Sets, sorting and the map of best matches\<close>

lemma new_Set_foldl_set:
  "set (foldl (\<lambda>members x. if x \<in> set members then members else members @ [x]) acc xs)
   = set acc \<union> set xs"
  by (induction xs arbitrary: acc) auto

lemma new_Set_foldl_distinct:
  "distinct acc \<Longrightarrow>
   distinct (foldl (\<lambda>members x. if x \<in> set members then members else members @ [x]) acc xs)"
  by (induction xs arbitrary: acc) auto

lemma set_new_Set [simp]: "set (new_Set xs) = set xs"
  by (simp add: new_Set_def new_Set_foldl_set)

lemma distinct_new_Set [simp]: "distinct (new_Set xs)"
  by (simp add: new_Set_def new_Set_foldl_distinct)

lemma length_new_Set: "length (new_Set xs) = card (set xs)"
  using distinct_card [of "new_Set xs"] by simp

lemma str_includes_self: "str_includes s s"
  by (cases s) auto

lemma str_includes_Nil: "str_includes s []"
  by (cases s) auto

lemma set_insert_sorted: "set (insert_sorted cmp x ys) = insert x (set ys)"
  by (induction ys) auto

lemma set_js_sort: "set (js_sort cmp xs) = set xs"
  by (induction xs) (auto simp: js_sort_def set_insert_sorted)

lemma length_insert_sorted: "length (insert_sorted cmp x ys) = Suc (length ys)"
  by (induction ys) auto

lemma length_js_sort: "length (js_sort cmp xs) = length xs"
  by (induction xs) (auto simp: js_sort_def length_insert_sorted)

lemma distinct_map_insert_sorted:
  "distinct (map f (insert_sorted cmp x ys)) = (f x \<notin> f ` set ys \<and> distinct (map f ys))"
  by (induction ys) (auto simp: set_insert_sorted)

lemma distinct_map_js_sort: "distinct (map f (js_sort cmp xs)) = distinct (map f xs)"
  by (induction xs) (auto simp: js_sort_def distinct_map_insert_sorted set_js_sort [unfolded js_sort_def])

lemma sorted_insert_sorted:
  fixes cmp :: "'a \<Rightarrow> 'a \<Rightarrow> js_number"
  assumes trans: "\<And>a b c. P a \<Longrightarrow> P b \<Longrightarrow> P c \<Longrightarrow> sort_compare cmp a b \<le> 0
                    \<Longrightarrow> sort_compare cmp b c \<le> 0 \<Longrightarrow> sort_compare cmp a c \<le> 0"
    and total: "\<And>a b. P a \<Longrightarrow> P b \<Longrightarrow> sort_compare cmp a b \<le> 0 \<or> sort_compare cmp b a \<le> 0"
    and "P x" and "\<forall>y \<in> set ys. P y"
    and "sorted_wrt (\<lambda>a b. sort_compare cmp a b \<le> 0) ys"
  shows "sorted_wrt (\<lambda>a b. sort_compare cmp a b \<le> 0) (insert_sorted cmp x ys)"
  using assms(4,5)
proof (induction ys)
  case Nil
  show ?case by simp
next
  case (Cons y ys)
  have py: "P y" and pys: "\<forall>z \<in> set ys. P z"
    using Cons.prems(1) by simp_all
  show ?case
  proof (cases "sort_compare cmp x y \<le> 0")
    case True
    have "sort_compare cmp x z \<le> 0" if "z \<in> set ys" for z
    proof -
      have "sort_compare cmp y z \<le> 0" using Cons.prems(2) that by simp
      then show ?thesis using trans [OF assms(3) py _ True] pys that by blast
    qed
    then show ?thesis using True Cons.prems(2) by auto
  next
    case False
    then have "sort_compare cmp y x \<le> 0" using total [OF assms(3) py] by blast
    moreover have "sorted_wrt (\<lambda>a b. sort_compare cmp a b \<le> 0) (insert_sorted cmp x ys)"
      using Cons.IH pys Cons.prems(2) by simp
    ultimately show ?thesis using False Cons.prems(2) by (auto simp: set_insert_sorted)
  qed
qed

lemma sorted_js_sort:
  fixes cmp :: "'a \<Rightarrow> 'a \<Rightarrow> js_number"
  assumes trans: "\<And>a b c. P a \<Longrightarrow> P b \<Longrightarrow> P c \<Longrightarrow> sort_compare cmp a b \<le> 0
                    \<Longrightarrow> sort_compare cmp b c \<le> 0 \<Longrightarrow> sort_compare cmp a c \<le> 0"
    and total: "\<And>a b. P a \<Longrightarrow> P b \<Longrightarrow> sort_compare cmp a b \<le> 0 \<or> sort_compare cmp b a \<le> 0"
    and "\<forall>x \<in> set xs. P x"
  shows "sorted_wrt (\<lambda>a b. sort_compare cmp a b \<le> 0) (js_sort cmp xs)"
  using assms(3)
proof (induction xs)
  case Nil
  show ?case by (simp add: js_sort_def)
next
  case (Cons x xs)
  have srt: "sorted_wrt (\<lambda>a b. sort_compare cmp a b \<le> 0) (js_sort cmp xs)"
    using Cons by simp
  have pys: "\<forall>y \<in> set (js_sort cmp xs). P y"
    using Cons.prems by (simp add: set_js_sort)
  have px: "P x" using Cons.prems by simp
  have "sorted_wrt (\<lambda>a b. sort_compare cmp a b \<le> 0) (insert_sorted cmp x (js_sort cmp xs))"
  proof (rule sorted_insert_sorted [where P = P])
    show "\<And>a b c. P a \<Longrightarrow> P b \<Longrightarrow> P c \<Longrightarrow> sort_compare cmp a b \<le> 0
            \<Longrightarrow> sort_compare cmp b c \<le> 0 \<Longrightarrow> sort_compare cmp a c \<le> 0"
      by (rule trans)
    show "\<And>a b. P a \<Longrightarrow> P b \<Longrightarrow> sort_compare cmp a b \<le> 0 \<or> sort_compare cmp b a \<le> 0"
      by (rule total)
    show "P x" by (rule px)
    show "\<forall>y \<in> set (js_sort cmp xs). P y" by (rule pys)
    show "sorted_wrt (\<lambda>a b. sort_compare cmp a b \<le> 0) (js_sort cmp xs)" by (rule srt)
  qed
  then show ?case by (simp add: js_sort_def)
qed

lemma compareMatches_le:
  assumes "hazardRank a = Some ra" and "hazardRank b = Some rb"
  shows "sort_compare compareMatches a b \<le> 0 \<longleftrightarrow>
         matchScore a > matchScore b \<or> (matchScore a = matchScore b \<and> ra \<le> rb)"
  using assms by (auto simp: sort_compare_def compareMatches_def)

lemma map_of_keep_best:
  "map_of (keep_best m a) =
     (case map_of m (entry_id a) of
        None \<Rightarrow> (map_of m)(entry_id a \<mapsto> a)
      | Some existing \<Rightarrow>
          if matchScore a > matchScore existing then (map_of m)(entry_id a \<mapsto> a) else map_of m)"
  by (simp add: keep_best_def update_conv' split: option.splits)

lemma distinct_keep_best: "distinct (map fst m) \<Longrightarrow> distinct (map fst (keep_best m a))"
  by (simp add: keep_best_def distinct_update split: option.splits)

lemma keep_best_fold_inv:
  assumes "distinct (map fst m)"
    and "\<And>k v. map_of m k = Some v \<Longrightarrow> entry_id v = k \<and> v \<in> S"
    and "set xs \<subseteq> S"
  shows "distinct (map fst (foldl keep_best m xs))
         \<and> (\<forall>k v. map_of (foldl keep_best m xs) k = Some v \<longrightarrow> entry_id v = k \<and> v \<in> S)"
  using assms
proof (induction xs arbitrary: m)
  case Nil
  then show ?case by simp
next
  case (Cons x xs)
  have d: "distinct (map fst (keep_best m x))"
    using Cons.prems(1) by (rule distinct_keep_best)
  have i: "\<And>k v. map_of (keep_best m x) k = Some v \<Longrightarrow> entry_id v = k \<and> v \<in> S"
    using Cons.prems(2,3)
    by (auto simp: map_of_keep_best split: option.splits if_splits)
  have "set xs \<subseteq> S" using Cons.prems(3) by simp
  from Cons.IH [OF d i this] show ?case by simp
qed

lemma keep_best_mono:
  assumes "map_of m k = Some v"
  shows "\<exists>v'. map_of (keep_best m a) k = Some v' \<and> matchScore v \<le> matchScore v'"
  using assms by (auto simp: map_of_keep_best split: option.splits)

lemma keep_best_fold_mono:
  assumes "map_of m k = Some v"
  shows "\<exists>v'. map_of (foldl keep_best m xs) k = Some v' \<and> matchScore v \<le> matchScore v'"
  using assms
proof (induction xs arbitrary: m v)
  case Nil
  then show ?case by simp
next
  case (Cons x xs)
  from keep_best_mono [OF Cons.prems, of x] obtain v1
    where v1: "map_of (keep_best m x) k = Some v1" "matchScore v \<le> matchScore v1" by blast
  from Cons.IH [OF v1(1)] obtain v2
    where "map_of (foldl keep_best (keep_best m x) xs) k = Some v2"
      "matchScore v1 \<le> matchScore v2" by blast
  with v1(2) show ?case by auto
qed

lemma keep_best_here:
  "\<exists>v. map_of (keep_best m a) (entry_id a) = Some v \<and> matchScore a \<le> matchScore v"
  by (auto simp: map_of_keep_best split: option.splits)

lemma keep_best_fold_covers:
  assumes "a \<in> set xs"
  shows "\<exists>v. map_of (foldl keep_best m xs) (entry_id a) = Some v \<and> matchScore a \<le> matchScore v"
  using assms
proof (induction xs arbitrary: m)
  case Nil
  then show ?case by simp
next
  case (Cons x xs)
  show ?case
  proof (cases "a = x")
    case True
    from keep_best_here [of m a] obtain v0
      where v0: "map_of (keep_best m a) (entry_id a) = Some v0" "matchScore a \<le> matchScore v0"
      by blast
    from keep_best_fold_mono [OF v0(1), of xs] v0(2) True show ?thesis by auto
  next
    case False
    then have "a \<in> set xs" using Cons.prems by simp
    from Cons.IH [OF this] show ?thesis by simp
  qed
qed

lemma removeDuplicatesAndSort_best:
  "distinct (map entry_id (removeDuplicatesAndSort found))
   \<and> set (removeDuplicatesAndSort found) \<subseteq> set found
   \<and> (\<forall>r \<in> set (removeDuplicatesAndSort found). \<forall>m \<in> set found.
         entry_id m = entry_id r \<longrightarrow> matchScore m \<le> matchScore r)"
proof -
  let ?m = "foldl keep_best [] found"
  have inv: "distinct (map fst ?m)
         \<and> (\<forall>k v. map_of ?m k = Some v \<longrightarrow> entry_id v = k \<and> v \<in> set found)"
    by (rule keep_best_fold_inv) auto
  then have d: "distinct (map fst ?m)"
    and kv: "\<And>k v. (k, v) \<in> set ?m \<Longrightarrow> entry_id v = k \<and> v \<in> set found"
    by auto
  have e: "map entry_id (map snd ?m) = map fst ?m"
    using kv by auto
  have 1: "distinct (map entry_id (removeDuplicatesAndSort found))"
    using d by (simp only: removeDuplicatesAndSort_def distinct_map_js_sort e)
  have 2: "set (removeDuplicatesAndSort found) \<subseteq> set found"
    using kv by (auto simp: removeDuplicatesAndSort_def set_js_sort)
  have 3: "matchScore m \<le> matchScore r"
    if r: "r \<in> set (removeDuplicatesAndSort found)" and m: "m \<in> set found"
      and e: "entry_id m = entry_id r" for r m
  proof -
    from r obtain k where k: "(k, r) \<in> set ?m"
      by (auto simp: removeDuplicatesAndSort_def set_js_sort)
    then have "k = entry_id r" using kv by auto
    with k d have "map_of ?m (entry_id r) = Some r" by simp
    moreover from keep_best_fold_covers [OF m, of "[]"] e obtain v
      where "map_of ?m (entry_id r) = Some v" "matchScore m \<le> matchScore v" by auto
    ultimately show ?thesis by simp
  qed
  from 1 2 3 show ?thesis by blast
qed

text \<open>
  When no level of the matches found names an inherited member, the comparison is
  consistent and the ranked list is in order: by score, the greater first, and among equal
  scores by the number of the hazard level.
\<close>

lemma ranked_when_levels_plain:
  assumes "\<forall>m \<in> set found. hazardRank m \<noteq> None"
  shows "sorted_wrt (\<lambda>a b. matchScore a > matchScore b
                        \<or> (matchScore a = matchScore b
                            \<and> the (hazardRank a) \<le> the (hazardRank b)))
           (removeDuplicatesAndSort found)"
proof -
  let ?P = "\<lambda>m. hazardRank m \<noteq> None"
  let ?xs = "map snd (foldl keep_best [] found)"
  have sub: "set ?xs \<subseteq> set found"
    using removeDuplicatesAndSort_best [of found]
    by (simp add: removeDuplicatesAndSort_def set_js_sort)
  then have p: "\<forall>x \<in> set ?xs. ?P x"
    using assms by blast
  have le: "sort_compare compareMatches a b \<le> 0 \<longleftrightarrow>
         matchScore a > matchScore b
         \<or> (matchScore a = matchScore b \<and> the (hazardRank a) \<le> the (hazardRank b))"
    if "?P a" and "?P b" for a b
    using that compareMatches_le [of a _ b] by auto
  have srt: "sorted_wrt (\<lambda>a b. sort_compare compareMatches a b \<le> 0)
               (js_sort compareMatches ?xs)"
  proof (rule sorted_js_sort [where P = ?P])
    show "sort_compare compareMatches a c \<le> 0"
      if "?P a" "?P b" "?P c" "sort_compare compareMatches a b \<le> 0"
        "sort_compare compareMatches b c \<le> 0" for a b c
      using that le by auto
    show "sort_compare compareMatches a b \<le> 0 \<or> sort_compare compareMatches b a \<le> 0"
      if "?P a" "?P b" for a b
      using that le by auto
    show "\<forall>x \<in> set ?xs. ?P x" by (rule p)
  qed
  have eq: "set (js_sort compareMatches ?xs) = set ?xs"
    by (rule set_js_sort)
  have "sorted_wrt (\<lambda>a b. matchScore a > matchScore b
                        \<or> (matchScore a = matchScore b
                            \<and> the (hazardRank a) \<le> the (hazardRank b)))
           (js_sort compareMatches ?xs)"
  proof (rule sorted_wrt_mono_rel [OF _ srt])
    fix a b
    assume a: "a \<in> set (js_sort compareMatches ?xs)"
      and b: "b \<in> set (js_sort compareMatches ?xs)"
      and c: "sort_compare compareMatches a b \<le> 0"
    have "?P a" and "?P b"
      using a b eq p by blast+
    then show "matchScore a > matchScore b
               \<or> (matchScore a = matchScore b \<and> the (hazardRank a) \<le> the (hazardRank b))"
      using c le by blast
  qed
  then show ?thesis by (simp add: removeDuplicatesAndSort_def)
qed

section \<open>Properties of the catalog cache\<close>

text \<open>
  C2 fails on the code. The fetch is rejected on an empty cache. The \<open>catch\<close> block calls
  \<open>additiveData.map\<close> on the undefined binding, which raises: the call does not return the
  bundled snapshot but is rejected, \<open>additivesCache\<close> stays empty, and \<open>cacheLoadPromise\<close>
  keeps the rejected promise, since the statement that clears it is not reached. The next
  call, made when the store would deliver \<open>sample_high\<close>, returns that rejected promise: it
  does not ask the store again.
\<close>

theorem fallback_raises_and_sticks:
  "getCachedAdditives additiveData Rejects empty_cache =
     (Inl TypeError, \<lparr>additivesCache = None, cacheLoadPromise = Some (Rejected TypeError)\<rparr>)
   \<and> getCachedAdditives additiveData (Snapshot [sample_high])
        \<lparr>additivesCache = None, cacheLoadPromise = Some (Rejected TypeError)\<rparr> =
     (Inl TypeError, \<lparr>additivesCache = None, cacheLoadPromise = Some (Rejected TypeError)\<rparr>)"
  by (simp add: getCachedAdditives_def load_catalog_def fallback_def additiveData_def
      empty_cache_def)

section \<open>Properties of the partial match\<close>

text \<open>
  C3, as the code has it. On a pair that is neither an exact nor a normalised exact match
  and that is a partial match, the score is computed from the least and the greatest of
  four lengths: those of the search term, of the keyword and of their two normalised
  forms. It becomes the best score when it exceeds the best score so far.
\<close>

theorem partial_score_formula:
  assumes "searchTerm \<noteq> lower keyword"
    and "\<not> (normalizeText lower (correctOCRErrors searchTerm)
              = normalizeText lower (correctOCRErrors keyword)
            \<and> length (normalizeText lower (correctOCRErrors keyword)) > 2)"
    and "isPartialMatch lower keyword searchTerm"
  shows "scoreTerm lower keyword searchTerm (bestMatch, bestScore) =
     (let lengths = {length searchTerm, length keyword,
                     length (normalizeText lower (correctOCRErrors searchTerm)),
                     length (normalizeText lower (correctOCRErrors keyword))};
          score = min (9 / 10) ((of_nat (Min lengths) / of_nat (Max lengths)) * (85 / 100))
      in Continue (if score > bestScore
                   then (Some \<lparr>best_match.matchType = Partial, best_match.matchScore = score,
                               best_match.matchedTerm = keyword\<rparr>, score)
                   else (bestMatch, bestScore)))"
proof -
  have mn: "Min {a, b, c, d} = min (min a b) (min c d)" for a b c d :: nat
    by (simp add: min.assoc)
  have mx: "Max {a, b, c, d} = max (max a b) (max c d)" for a b c d :: nat
    by (simp add: max.assoc)
  have 2: "(normalizeText lower (correctOCRErrors searchTerm)
              = normalizeText lower (correctOCRErrors keyword)
            \<and> length (normalizeText lower (correctOCRErrors keyword)) > 2) = False"
    using assms(2) by simp
  show ?thesis
    unfolding scoreTerm_def Let_def mn mx fst_conv snd_conv 2
    by (simp only: assms(1) assms(3) if_False if_True if_distrib [where f = Continue])
qed

lemma norm_a_b_c:
  "normalizeText toLowerCase_latin (correctOCRErrors [97, 95, 98, 95, 99]) = [97, 98, 99]"
  by (simp add: correctOCRErrors_def object_entries_corrections replaceAll_def
      normalizeText_def toLowerCase_latin_def
      is_upper_latin_def is_bracket_def is_space_def is_word_def is_hangul_def)

lemma norm_abcd:
  "normalizeText toLowerCase_latin (correctOCRErrors [97, 98, 99, 100]) = [97, 98, 99, 100]"
  by (simp add: correctOCRErrors_def object_entries_corrections replaceAll_def
      normalizeText_def toLowerCase_latin_def
      is_upper_latin_def is_bracket_def is_space_def is_word_def is_hangul_def)

lemma lower_a_b_c: "toLowerCase_latin [97, 95, 98, 95, 99] = [97, 95, 98, 95, 99]"
  by (simp add: toLowerCase_latin_def is_upper_latin_def)

lemma partial_a_b_c: "isPartialMatch toLowerCase_latin [97, 95, 98, 95, 99] [97, 98, 99, 100]"
  by (simp add: isPartialMatch_def norm_a_b_c norm_abcd)

text \<open>
  The claim C3 as stated fails on the keyword \<open>a_b_c\<close> and the search term \<open>abcd\<close>: the
  code gives 0.51 (3 over 5), the claimed formula 0.68 on the two raw strings (4 over 5)
  and 0.6375 on the two normalised strings (3 over 4).
\<close>

theorem partial_score_counterexample:
  "scoreTerm toLowerCase_latin [97, 95, 98, 95, 99] [97, 98, 99, 100] (None, 0) =
     Continue (Some \<lparr>best_match.matchType = Partial, best_match.matchScore = 51 / 100,
                     best_match.matchedTerm = [97, 95, 98, 95, 99]\<rparr>, 51 / 100)
   \<and> claimed_partial_score [97, 95, 98, 95, 99] [97, 98, 99, 100] = 17 / 25
   \<and> claimed_partial_score (normalizeText toLowerCase_latin (correctOCRErrors [97, 95, 98, 95, 99]))
        (normalizeText toLowerCase_latin (correctOCRErrors [97, 98, 99, 100])) = 51 / 80"
  by (simp add: scoreTerm_def lower_a_b_c norm_a_b_c norm_abcd partial_a_b_c
      claimed_partial_score_def Let_def)

theorem partial_score_formula_witness:
  "[97, 98, 99, 100] \<noteq> toLowerCase_latin [97, 95, 98, 95, 99]
   \<and> isPartialMatch toLowerCase_latin [97, 95, 98, 95, 99] [97, 98, 99, 100]
   \<and> scoreTerm toLowerCase_latin [97, 95, 98, 95, 99] [97, 98, 99, 100] (None, 0) =
     Continue (Some \<lparr>best_match.matchType = Partial, best_match.matchScore = 51 / 100,
                     best_match.matchedTerm = [97, 95, 98, 95, 99]\<rparr>, 51 / 100)"
proof -
  have 1: "[97, 98, 99, 100] \<noteq> toLowerCase_latin [97, 95, 98, 95, 99]"
    by (simp add: lower_a_b_c)
  have 2: "\<not> (normalizeText toLowerCase_latin (correctOCRErrors [97, 98, 99, 100])
              = normalizeText toLowerCase_latin (correctOCRErrors [97, 95, 98, 95, 99])
            \<and> length (normalizeText toLowerCase_latin (correctOCRErrors [97, 95, 98, 95, 99])) > 2)"
    by (simp add: norm_a_b_c norm_abcd)
  show ?thesis
    using 1 partial_a_b_c partial_score_formula [OF 1 2 partial_a_b_c, of None 0]
    by (simp add: norm_a_b_c norm_abcd Let_def)
qed

section \<open>Properties of the fuzzy match\<close>

lemma lower_Nil: "lower_case_laws lower \<Longrightarrow> lower [] = []"
  by (simp add: lower_case_laws_def)

lemma normalizeText_Nil: "lower_case_laws lower \<Longrightarrow> normalizeText lower (correctOCRErrors []) = []"
  by (simp add: normalizeText_def lower_Nil)

lemma code_jaccard:
  "of_nat (length (new_Set (filter (\<lambda>x. x \<in> set (new_Set n2)) (new_Set n1))))
     / of_nat (length (new_Set (new_Set n1 @ new_Set n2)))
   = character_set_jaccard n1 n2"
proof -
  have "set (filter (\<lambda>x. x \<in> set n2) (new_Set n1)) = set n1 \<inter> set n2"
    by auto
  then show ?thesis
    by (simp add: character_set_jaccard_def length_new_Set)
qed

lemma bonus_max:
  "max (if A then 2 / 10 else 0) (if B then 2 / 10 else (0::rat)) = (if A \<or> B then 2 / 10 else 0)"
  by simp

lemma similarity_formula:
  assumes "s1 \<noteq> s2" and "s1 \<noteq> []" and "s2 \<noteq> []"
    and "normalizeText lower (correctOCRErrors s1) \<noteq> normalizeText lower (correctOCRErrors s2)"
  shows "calculateStringSimilarity lower s1 s2 =
     min 1 (character_set_jaccard (normalizeText lower (correctOCRErrors s1))
              (normalizeText lower (correctOCRErrors s2))
            + (if str_includes (normalizeText lower (correctOCRErrors s1))
                    (normalizeText lower (correctOCRErrors s2))
                  \<or> str_includes (normalizeText lower (correctOCRErrors s2))
                       (normalizeText lower (correctOCRErrors s1))
               then 2 / 10 else 0))"
  unfolding calculateStringSimilarity_def Let_def code_jaccard bonus_max
  using assms by simp

text \<open>
  C9. On a pair that reaches the fuzzy strategy (no exact, no normalised exact and no
  partial match), the similarity is the Jaccard similarity of the character sets of the two
  normalised forms, plus 0.2 when one normalised form contains the other, at most 1. The
  match is accepted only when the similarity reaches the threshold, 0.3 for a keyword of
  more than 4 characters and 0.5 otherwise (and its score exceeds the best score so far);
  the accepted score is the similarity times 0.7.
\<close>

theorem fuzzy_strategy:
  assumes laws: "lower_case_laws lower"
    and ne: "searchTerm \<noteq> lower keyword"
    and nn: "\<not> (normalizeText lower (correctOCRErrors searchTerm)
              = normalizeText lower (correctOCRErrors keyword)
            \<and> length (normalizeText lower (correctOCRErrors keyword)) > 2)"
    and np: "\<not> isPartialMatch lower keyword searchTerm"
  shows "calculateStringSimilarity lower keyword searchTerm =
           min 1 (character_set_jaccard (normalizeText lower (correctOCRErrors keyword))
                    (normalizeText lower (correctOCRErrors searchTerm))
                  + (if str_includes (normalizeText lower (correctOCRErrors keyword))
                          (normalizeText lower (correctOCRErrors searchTerm))
                        \<or> str_includes (normalizeText lower (correctOCRErrors searchTerm))
                             (normalizeText lower (correctOCRErrors keyword))
                     then 2 / 10 else 0))
         \<and> scoreTerm lower keyword searchTerm (bestMatch, bestScore) =
             (let similarity = calculateStringSimilarity lower keyword searchTerm;
                  threshold = (if length keyword > 4 then 3 / 10 else 5 / 10)
              in Continue (if similarity \<ge> threshold \<and> similarity * (7 / 10) > bestScore
                           then (Some \<lparr>best_match.matchType = Fuzzy,
                                       best_match.matchScore = similarity * (7 / 10),
                                       best_match.matchedTerm = keyword\<rparr>,
                                 similarity * (7 / 10))
                           else (bestMatch, bestScore)))"
proof -
  let ?nk = "normalizeText lower (correctOCRErrors keyword)"
  let ?nt = "normalizeText lower (correctOCRErrors searchTerm)"
  from np have a: "\<not> str_includes ?nt ?nk" and b: "\<not> str_includes ?nk ?nt"
    by (simp_all add: isPartialMatch_def Let_def)
  from a have neq: "?nk \<noteq> ?nt"
    using str_includes_self [of ?nk] by auto
  then have 1: "keyword \<noteq> searchTerm" by auto
  have 2: "keyword \<noteq> []"
    using a normalizeText_Nil [OF laws] str_includes_Nil [of ?nt] by auto
  have 3: "searchTerm \<noteq> []"
    using b normalizeText_Nil [OF laws] str_includes_Nil [of ?nk] by auto
  have sim: "calculateStringSimilarity lower keyword searchTerm =
           min 1 (character_set_jaccard ?nk ?nt
                  + (if str_includes ?nk ?nt \<or> str_includes ?nt ?nk then 2 / 10 else 0))"
    by (rule similarity_formula [OF 1 2 3 neq])
  have nn': "(?nt = ?nk \<and> length ?nk > 2) = False"
    using nn by simp
  have step: "scoreTerm lower keyword searchTerm (bestMatch, bestScore) =
             (let similarity = calculateStringSimilarity lower keyword searchTerm;
                  threshold = (if length keyword > 4 then 3 / 10 else 5 / 10)
              in Continue (if similarity \<ge> threshold \<and> similarity * (7 / 10) > bestScore
                           then (Some \<lparr>best_match.matchType = Fuzzy,
                                       best_match.matchScore = similarity * (7 / 10),
                                       best_match.matchedTerm = keyword\<rparr>,
                                 similarity * (7 / 10))
                           else (bestMatch, bestScore)))"
    unfolding scoreTerm_def Let_def fst_conv snd_conv nn'
    by (simp only: ne np if_False if_distrib [where f = Continue])
  from sim step show ?thesis by (rule conjI)
qed

lemma lower_garbled:
  "toLowerCase_latin [50504, 49885, 54693, 49328, 45264, 53944, 47464] =
     [50504, 49885, 54693, 49328, 45264, 53944, 47464]"
  by (simp add: toLowerCase_latin_def is_upper_latin_def)

lemma norm_garbled:
  "normalizeText toLowerCase_latin
     (correctOCRErrors [50504, 49885, 54693, 49328, 45264, 53944, 47464]) =
     [50504, 49885, 54693, 49328, 45264, 53944, 47464]"
  by (simp add: correctOCRErrors_def object_entries_corrections replaceAll_def
      normalizeText_def lower_garbled is_bracket_def is_space_def is_word_def is_hangul_def)

lemma norm_benzoate:
  "normalizeText toLowerCase_latin
     (correctOCRErrors [50504, 49885, 54693, 49328, 45208, 53944, 47464]) =
     [50504, 49885, 54693, 49328, 45208, 53944, 47464]"
  by (simp add: correctOCRErrors_def object_entries_corrections replaceAll_def
      normalizeText_def toLowerCase_latin_def is_upper_latin_def is_bracket_def is_space_def
      is_word_def is_hangul_def)

lemma not_partial_garbled:
  "\<not> isPartialMatch toLowerCase_latin [50504, 49885, 54693, 49328, 45264, 53944, 47464]
       [50504, 49885, 54693, 49328, 45208, 53944, 47464]"
  by (simp add: isPartialMatch_def norm_garbled norm_benzoate lower_garbled)

lemma character_set_jaccard_lists:
  "character_set_jaccard a b =
     of_nat (length (remdups (filter (\<lambda>x. x \<in> set b) a))) / of_nat (length (remdups (a @ b)))"
proof -
  have "set a \<inter> set b = set (filter (\<lambda>x. x \<in> set b) a)"
    by auto
  moreover have "set a \<union> set b = set (a @ b)"
    by simp
  ultimately show ?thesis
    unfolding character_set_jaccard_def by (simp only: card_set)
qed

lemma jaccard_garbled:
  "character_set_jaccard [50504, 49885, 54693, 49328, 45264, 53944, 47464]
     [50504, 49885, 54693, 49328, 45208, 53944, 47464] = 3 / 4"
  by (simp add: character_set_jaccard_lists)

theorem fuzzy_strategy_witness:
  "lower_case_laws toLowerCase_latin
   \<and> \<not> isPartialMatch toLowerCase_latin [50504, 49885, 54693, 49328, 45264, 53944, 47464]
         [50504, 49885, 54693, 49328, 45208, 53944, 47464]
   \<and> calculateStringSimilarity toLowerCase_latin
        [50504, 49885, 54693, 49328, 45264, 53944, 47464]
        [50504, 49885, 54693, 49328, 45208, 53944, 47464] = 3 / 4
   \<and> scoreTerm toLowerCase_latin [50504, 49885, 54693, 49328, 45264, 53944, 47464]
        [50504, 49885, 54693, 49328, 45208, 53944, 47464] (None, 0) =
       Continue (Some \<lparr>best_match.matchType = Fuzzy, best_match.matchScore = 21 / 40,
                       best_match.matchedTerm =
                         [50504, 49885, 54693, 49328, 45264, 53944, 47464]\<rparr>, 21 / 40)"
proof -
  have ne: "[50504, 49885, 54693, 49328, 45208, 53944, 47464] \<noteq>
            toLowerCase_latin [50504, 49885, 54693, 49328, 45264, 53944, 47464]"
    by (simp add: lower_garbled)
  have nn: "\<not> (normalizeText toLowerCase_latin
                 (correctOCRErrors [50504, 49885, 54693, 49328, 45208, 53944, 47464])
               = normalizeText toLowerCase_latin
                   (correctOCRErrors [50504, 49885, 54693, 49328, 45264, 53944, 47464])
             \<and> length (normalizeText toLowerCase_latin
                   (correctOCRErrors [50504, 49885, 54693, 49328, 45264, 53944, 47464])) > 2)"
    by (simp add: norm_garbled norm_benzoate)
  have inc: "\<not> str_includes [50504, 49885, 54693, 49328, 45264, 53944, 47464]
                 [50504, 49885, 54693, 49328, 45208, 53944, 47464]"
       "\<not> str_includes [50504, 49885, 54693, 49328, 45208, 53944, 47464]
                 [50504, 49885, 54693, 49328, 45264, 53944, 47464]"
    by simp_all
  from fuzzy_strategy [OF toLowerCase_latin_laws ne nn not_partial_garbled, of None 0]
  have sim: "calculateStringSimilarity toLowerCase_latin
        [50504, 49885, 54693, 49328, 45264, 53944, 47464]
        [50504, 49885, 54693, 49328, 45208, 53944, 47464] = 3 / 4"
    and step: "scoreTerm toLowerCase_latin [50504, 49885, 54693, 49328, 45264, 53944, 47464]
        [50504, 49885, 54693, 49328, 45208, 53944, 47464] (None, 0) =
             (let similarity = calculateStringSimilarity toLowerCase_latin
                    [50504, 49885, 54693, 49328, 45264, 53944, 47464]
                    [50504, 49885, 54693, 49328, 45208, 53944, 47464];
                  threshold = (if length [50504, 49885, 54693, 49328, 45264, 53944, 47464 :: nat] > 4
                               then 3 / 10 else 5 / 10)
              in Continue (if similarity \<ge> threshold \<and> similarity * (7 / 10) > 0
                           then (Some \<lparr>best_match.matchType = Fuzzy,
                                       best_match.matchScore = similarity * (7 / 10),
                                       best_match.matchedTerm =
                                         [50504, 49885, 54693, 49328, 45264, 53944, 47464]\<rparr>,
                                 similarity * (7 / 10))
                           else (None, 0)))"
    by (simp_all only: norm_garbled norm_benzoate jaccard_garbled inc, simp_all)
  show ?thesis
    using toLowerCase_latin_laws not_partial_garbled sim step by (simp add: Let_def)
qed

section \<open>Properties of the search\<close>

lemma search_result:
  "fst (searchAdditivesWithFuzzyMatching lower seed reply st v) =
     (case fst (getCachedAdditives seed reply st) of
        Inl e \<Rightarrow> Inr []
      | Inr allAdditives \<Rightarrow>
         (case found_matches lower allAdditives v of
            Inl e \<Rightarrow> Inr []
          | Inr foundAdditives \<Rightarrow> Inr (take 8 (removeDuplicatesAndSort foundAdditives))))"
  by (simp add: searchAdditivesWithFuzzyMatching_def search_body_def
      split: prod.splits sum.splits)

lemma search_body_result:
  "fst (search_body lower seed reply st v) =
     (case fst (getCachedAdditives seed reply st) of
        Inl e \<Rightarrow> Inl e
      | Inr allAdditives \<Rightarrow>
         (case found_matches lower allAdditives v of
            Inl e \<Rightarrow> Inl e
          | Inr foundAdditives \<Rightarrow> Inr (take 8 (removeDuplicatesAndSort foundAdditives))))"
  by (simp add: search_body_def split: prod.splits sum.splits)

lemma cache_loads_snapshot:
  "docs \<noteq> [] \<Longrightarrow> fst (getCachedAdditives seed (Snapshot docs) empty_cache) = Inr docs"
  by (simp add: getCachedAdditives_def load_catalog_def empty_cache_def)

text \<open>
  C4. Whatever the input value, the catalog, the answer of the store and the state of the
  cache, the search resolves to an array and no error leaves it; when the block under
  \<open>try\<close> raises, the array is empty.
\<close>

theorem search_never_raises:
  "(\<exists>results. fst (searchAdditivesWithFuzzyMatching lower seed reply st v) = Inr results)
   \<and> (\<forall>e. fst (search_body lower seed reply st v) = Inl e
          \<longrightarrow> fst (searchAdditivesWithFuzzyMatching lower seed reply st v) = Inr [])"
  by (simp add: search_result search_body_result split: sum.splits)

theorem search_never_raises_witness:
  "fst (search_body toLowerCase_latin additiveData (Snapshot [citric_acid]) empty_cache Null)
     = Inl TypeError
   \<and> fst (searchAdditivesWithFuzzyMatching toLowerCase_latin additiveData
            (Snapshot [citric_acid]) empty_cache Null) = Inr []"
proof -
  have "fst (search_body toLowerCase_latin additiveData (Snapshot [citric_acid]) empty_cache Null)
          = Inl TypeError"
    by (simp add: search_body_result cache_loads_snapshot found_matches_def
        normalizeAndExtractKeywords_def)
  then show ?thesis
    using search_never_raises [of toLowerCase_latin additiveData "Snapshot [citric_acid]"
        empty_cache Null]
    by simp
qed

text \<open>
  C5. The search returns at most 8 results.
\<close>

theorem search_at_most_8:
  "\<exists>results. fst (searchAdditivesWithFuzzyMatching lower seed reply st v) = Inr results
             \<and> length results \<le> 8"
  by (simp add: search_result split: sum.splits)

subsection \<open>The exact hit\<close>

lemma isCommonWord_latin:
  "isCommonWord toLowerCase_latin word =
     (if list_ex (\<lambda>keyword. str_includes (toLowerCase_latin word) keyword
                           \<or> str_includes keyword (toLowerCase_latin word))
           importantAdditiveKeywords
      then False
      else toLowerCase_latin word \<in> set commonWords)"
proof -
  have "map toLowerCase_latin importantAdditiveKeywords = importantAdditiveKeywords"
    by (simp add: importantAdditiveKeywords_def toLowerCase_latin_def is_upper_latin_def)
  then have "list_ex (\<lambda>keyword. str_includes (toLowerCase_latin word) (toLowerCase_latin keyword)
                           \<or> str_includes (toLowerCase_latin keyword) (toLowerCase_latin word))
           importantAdditiveKeywords
      = list_ex (\<lambda>keyword. str_includes (toLowerCase_latin word) keyword
                           \<or> str_includes keyword (toLowerCase_latin word))
           importantAdditiveKeywords"
    by (metis (mono_tags, lifting) list_ex_iff list.set_map imageE imageI)
  then show ?thesis by (simp add: isCommonWord_def)
qed

lemma lower_citric: "toLowerCase_latin [44396, 50672, 49328] = [44396, 50672, 49328]"
  by (simp add: toLowerCase_latin_def is_upper_latin_def)

lemma correct_citric: "correctOCRErrors [44396, 50672, 49328] = [44396, 50672, 49328]"
  by (simp add: correctOCRErrors_def object_entries_corrections replaceAll_def)

lemma common_citric: "\<not> isCommonWord toLowerCase_latin [44396, 50672, 49328]"
  by (simp add: isCommonWord_latin lower_citric importantAdditiveKeywords_def commonWords_def)

lemma keywords_citric:
  "normalizeAndExtractKeywords toLowerCase_latin (Str [44396, 50672, 49328])
    = Inr [[44396, 50672, 49328]]"
proof -
  have n: "normalized toLowerCase_latin [44396, 50672, 49328] = [44396, 50672, 49328]"
    by (simp add: normalized_def lower_citric is_bracket_def is_space_def is_word_def
        is_hangul_def trim_def)
  have r: "rawKeywords toLowerCase_latin [44396, 50672, 49328] = [[44396, 50672, 49328]]"
    by (simp add: rawKeywords_def common_citric is_delimiter_def is_space_def trim_def)
  have k: "koreanWords [44396, 50672, 49328] = [[44396, 50672, 49328]]"
    by (simp add: koreanWords_def is_hangul_def)
  have m: "numbered_parts [44396, 50672, 49328] = []"
    by (simp add: numbered_parts_def is_hangul_def is_digit_def)
  have u: "uniqueKeywords [[44396, 50672, 49328], [44396, 50672, 49328]]
           = [[44396, 50672, 49328]]"
    by (simp add: uniqueKeywords_def new_Set_def js_sort_def sort_compare_def)
  show ?thesis
    by (simp add: normalizeAndExtractKeywords_def correct_citric n r k m u common_citric
        numberedAdditives_def spacelessWords_def)
qed

lemma terms_citric:
  "scoreTerms toLowerCase_latin [44396, 50672, 49328] [[44396, 50672, 49328]] (None, 0) =
     (Some \<lparr>best_match.matchType = Exact, best_match.matchScore = 1,
            best_match.matchedTerm = [44396, 50672, 49328]\<rparr>, 0)"
  by (simp add: scoreTerm_def lower_citric)

lemma matches_citric:
  "findAdditiveMatches toLowerCase_latin [44396, 50672, 49328] [citric_acid] = Inr []"
  by (simp add: citric_acid_def lower_citric terms_citric del: scoreTerms.simps)

lemma found_citric:
  "found_matches toLowerCase_latin [citric_acid] (Str [44396, 50672, 49328]) = Inr []"
  by (simp add: found_matches_def keywords_citric matches_citric del: findAdditiveMatches.simps)

text \<open>
  C1 fails on the code. The catalog holds the one entry \<open>citric_acid\<close> and the input is its
  name. The loop over the search terms finds the exact match and leaves at once, without
  raising \<open>bestScore\<close>, which is still 0; the test \<open>bestScore > 0.2\<close> then drops the entry,
  and the search returns nothing.
\<close>

theorem exact_hit_is_dropped:
  "scoreTerms toLowerCase_latin [44396, 50672, 49328] [[44396, 50672, 49328]] (None, 0) =
     (Some \<lparr>best_match.matchType = Exact, best_match.matchScore = 1,
            best_match.matchedTerm = [44396, 50672, 49328]\<rparr>, 0)
   \<and> findAdditiveMatches toLowerCase_latin [44396, 50672, 49328] [citric_acid] = Inr []
   \<and> fst (searchAdditivesWithFuzzyMatching toLowerCase_latin additiveData
           (Snapshot [citric_acid]) empty_cache (Str [44396, 50672, 49328])) = Inr []"
  by (simp add: terms_citric matches_citric search_result cache_loads_snapshot found_citric
      removeDuplicatesAndSort_def js_sort_def del: scoreTerms.simps findAdditiveMatches.simps)

lemma exact_name_hit_not_pushed:
  assumes "name entry = Some additiveName" and "aliases entry = Some als"
    and "lower additiveName = lower keyword"
  shows "findAdditiveMatches lower keyword [entry] = Inr []"
  using assms by (simp add: scoreTerm_def)

subsection \<open>The sample search\<close>

lemma lower_small:
  "toLowerCase_latin [97, 98, 99, 32, 97, 98] = [97, 98, 99, 32, 97, 98]"
  "toLowerCase_latin [97, 98, 99] = [97, 98, 99]"
  "toLowerCase_latin [97, 98] = [97, 98]"
  "toLowerCase_latin [97, 98, 99, 100] = [97, 98, 99, 100]"
  "toLowerCase_latin [97, 98, 99, 101] = [97, 98, 99, 101]"
  by (simp_all add: toLowerCase_latin_def is_upper_latin_def)

lemma correct_small:
  "correctOCRErrors [97, 98, 99, 32, 97, 98] = [97, 98, 99, 32, 97, 98]"
  "correctOCRErrors [97, 98, 99] = [97, 98, 99]"
  "correctOCRErrors [97, 98] = [97, 98]"
  "correctOCRErrors [97, 98, 99, 100] = [97, 98, 99, 100]"
  "correctOCRErrors [97, 98, 99, 101] = [97, 98, 99, 101]"
  by (simp_all add: correctOCRErrors_def object_entries_corrections replaceAll_def)

lemma norm_small:
  "normalizeText toLowerCase_latin [97, 98, 99] = [97, 98, 99]"
  "normalizeText toLowerCase_latin [97, 98] = [97, 98]"
  "normalizeText toLowerCase_latin [97, 98, 99, 100] = [97, 98, 99, 100]"
  "normalizeText toLowerCase_latin [97, 98, 99, 101] = [97, 98, 99, 101]"
  by (simp_all add: normalizeText_def lower_small is_bracket_def is_space_def is_word_def)

lemma common_small:
  "\<not> isCommonWord toLowerCase_latin [97, 98, 99]"
  "\<not> isCommonWord toLowerCase_latin [97, 98]"
  by (simp_all add: isCommonWord_latin lower_small importantAdditiveKeywords_def commonWords_def)

lemma keywords_sample:
  "normalizeAndExtractKeywords toLowerCase_latin (Str [97, 98, 99, 32, 97, 98])
    = Inr [[97, 98, 99], [97, 98]]"
proof -
  have n: "normalized toLowerCase_latin [97, 98, 99, 32, 97, 98] = [97, 98, 99, 32, 97, 98]"
    by (simp add: normalized_def lower_small is_bracket_def is_space_def is_word_def trim_def)
  have r: "rawKeywords toLowerCase_latin [97, 98, 99, 32, 97, 98] = [[97, 98, 99], [97, 98]]"
    by (simp add: rawKeywords_def common_small is_delimiter_def is_space_def trim_def)
  have k: "koreanWords [97, 98, 99, 32, 97, 98] = []"
    by (simp add: koreanWords_def is_hangul_def)
  have m: "numbered_parts [97, 98, 99] = []" "numbered_parts [97, 98] = []"
    by (simp_all add: numbered_parts_def is_hangul_def)
  have u: "uniqueKeywords [[97, 98, 99], [97, 98]] = [[97, 98, 99], [97, 98]]"
    by (simp add: uniqueKeywords_def new_Set_def js_sort_def sort_compare_def)
  show ?thesis
    by (simp add: normalizeAndExtractKeywords_def correct_small n r k m u
        numberedAdditives_def spacelessWords_def)
qed

lemma partial_small:
  "isPartialMatch toLowerCase_latin [97, 98, 99] [97, 98, 99, 100]"
  "isPartialMatch toLowerCase_latin [97, 98, 99] [97, 98, 99, 101]"
  "isPartialMatch toLowerCase_latin [97, 98] [97, 98, 99, 100]"
  "isPartialMatch toLowerCase_latin [97, 98] [97, 98, 99, 101]"
  by (simp_all add: isPartialMatch_def lower_small)

lemma terms_sample:
  "scoreTerms toLowerCase_latin [97, 98, 99] [[97, 98, 99, 100]] (None, 0) =
     (Some \<lparr>best_match.matchType = Partial, best_match.matchScore = 51 / 80,
            best_match.matchedTerm = [97, 98, 99]\<rparr>, 51 / 80)"
  "scoreTerms toLowerCase_latin [97, 98, 99] [[97, 98, 99, 101]] (None, 0) =
     (Some \<lparr>best_match.matchType = Partial, best_match.matchScore = 51 / 80,
            best_match.matchedTerm = [97, 98, 99]\<rparr>, 51 / 80)"
  "scoreTerms toLowerCase_latin [97, 98] [[97, 98, 99, 100]] (None, 0) =
     (Some \<lparr>best_match.matchType = Partial, best_match.matchScore = 17 / 40,
            best_match.matchedTerm = [97, 98]\<rparr>, 17 / 40)"
  "scoreTerms toLowerCase_latin [97, 98] [[97, 98, 99, 101]] (None, 0) =
     (Some \<lparr>best_match.matchType = Partial, best_match.matchScore = 17 / 40,
            best_match.matchedTerm = [97, 98]\<rparr>, 17 / 40)"
  by (simp_all add: scoreTerm_def lower_small correct_small norm_small partial_small Let_def)

lemma matches_sample:
  "findAdditiveMatches toLowerCase_latin [97, 98, 99] [sample_low, sample_high] =
     Inr [spread sample_low \<lparr>best_match.matchType = Partial, best_match.matchScore = 51 / 80,
                             best_match.matchedTerm = [97, 98, 99]\<rparr>,
          spread sample_high \<lparr>best_match.matchType = Partial, best_match.matchScore = 51 / 80,
                              best_match.matchedTerm = [97, 98, 99]\<rparr>]"
  "findAdditiveMatches toLowerCase_latin [97, 98] [sample_low, sample_high] =
     Inr [spread sample_low \<lparr>best_match.matchType = Partial, best_match.matchScore = 17 / 40,
                             best_match.matchedTerm = [97, 98]\<rparr>,
          spread sample_high \<lparr>best_match.matchType = Partial, best_match.matchScore = 17 / 40,
                              best_match.matchedTerm = [97, 98]\<rparr>]"
proof -
  have f: "name sample_low = Some [97, 98, 99, 100]" "aliases sample_low = Some []"
    "name sample_high = Some [97, 98, 99, 101]" "aliases sample_high = Some []"
    by (simp_all add: sample_low_def sample_high_def)
  show "findAdditiveMatches toLowerCase_latin [97, 98, 99] [sample_low, sample_high] =
     Inr [spread sample_low \<lparr>best_match.matchType = Partial, best_match.matchScore = 51 / 80,
                             best_match.matchedTerm = [97, 98, 99]\<rparr>,
          spread sample_high \<lparr>best_match.matchType = Partial, best_match.matchScore = 51 / 80,
                              best_match.matchedTerm = [97, 98, 99]\<rparr>]"
    by (simp add: f lower_small terms_sample del: scoreTerms.simps)
  show "findAdditiveMatches toLowerCase_latin [97, 98] [sample_low, sample_high] =
     Inr [spread sample_low \<lparr>best_match.matchType = Partial, best_match.matchScore = 17 / 40,
                             best_match.matchedTerm = [97, 98]\<rparr>,
          spread sample_high \<lparr>best_match.matchType = Partial, best_match.matchScore = 17 / 40,
                              best_match.matchedTerm = [97, 98]\<rparr>]"
    by (simp add: f lower_small terms_sample del: scoreTerms.simps)
qed

lemma found_sample:
  "found_matches toLowerCase_latin [sample_low, sample_high] (Str [97, 98, 99, 32, 97, 98]) =
     Inr [partial_hit sample_low (51 / 80) [97, 98, 99],
          partial_hit sample_high (51 / 80) [97, 98, 99],
          partial_hit sample_low (17 / 40) [97, 98],
          partial_hit sample_high (17 / 40) [97, 98]]"
  by (simp add: found_matches_def keywords_sample matches_sample partial_hit_def
      del: findAdditiveMatches.simps)

lemma hit_fields:
  "entry_id (partial_hit a score keyword) = entry_id a"
  "matchScore (partial_hit a score keyword) = score"
  "hazard_level (partial_hit a score keyword) = hazard_level a"
  by (simp_all add: partial_hit_def spread_def)

lemma sample_ids: "entry_id sample_low = [120, 49]" "entry_id sample_high = [120, 50]"
  by (simp_all add: sample_low_def sample_high_def)

lemma sample_ranks:
  "hazardRank (partial_hit sample_low score keyword) = Some 2"
  "hazardRank (partial_hit sample_high score keyword) = Some 0"
  by (simp_all add: hazardRank_def hazardOrder_def hit_fields sample_low_def sample_high_def)

lemma ranked_sample:
  "removeDuplicatesAndSort
     [partial_hit sample_low (51 / 80) [97, 98, 99],
      partial_hit sample_high (51 / 80) [97, 98, 99],
      partial_hit sample_low (17 / 40) [97, 98],
      partial_hit sample_high (17 / 40) [97, 98]] =
     [partial_hit sample_high (51 / 80) [97, 98, 99],
      partial_hit sample_low (51 / 80) [97, 98, 99]]"
  by (simp add: removeDuplicatesAndSort_def keep_best_def hit_fields sample_ids js_sort_def
      sort_compare_def compareMatches_def sample_ranks)

lemma search_sample:
  "fst (searchAdditivesWithFuzzyMatching toLowerCase_latin additiveData
          (Snapshot [sample_low, sample_high]) empty_cache (Str [97, 98, 99, 32, 97, 98])) =
     Inr [partial_hit sample_high (51 / 80) [97, 98, 99],
          partial_hit sample_low (51 / 80) [97, 98, 99]]"
  by (simp add: search_result cache_loads_snapshot found_sample ranked_sample)

text \<open>
  C7. The returned list holds each entry id at most once. Every result is one of the
  matches found, and no match found for the same entry, by any keyword, has a greater
  score.
\<close>

theorem one_result_per_entry:
  assumes "fst (searchAdditivesWithFuzzyMatching lower seed reply st v) = Inr results"
  shows "distinct (map entry_id results)
         \<and> (\<forall>allAdditives found.
              fst (getCachedAdditives seed reply st) = Inr allAdditives
              \<longrightarrow> found_matches lower allAdditives v = Inr found
              \<longrightarrow> set results \<subseteq> set found
                  \<and> (\<forall>r \<in> set results. \<forall>m \<in> set found.
                        entry_id m = entry_id r \<longrightarrow> matchScore m \<le> matchScore r))"
proof -
  have ranked: "distinct (map entry_id (take 8 (removeDuplicatesAndSort found)))
      \<and> set (take 8 (removeDuplicatesAndSort found)) \<subseteq> set found
      \<and> (\<forall>r \<in> set (take 8 (removeDuplicatesAndSort found)). \<forall>m \<in> set found.
            entry_id m = entry_id r \<longrightarrow> matchScore m \<le> matchScore r)" for found
  proof -
    have sub: "set (take 8 (removeDuplicatesAndSort found)) \<subseteq> set (removeDuplicatesAndSort found)"
      by (rule set_take_subset)
    have "distinct (map entry_id (take 8 (removeDuplicatesAndSort found)))"
      using removeDuplicatesAndSort_best [of found]
      by (simp add: take_map [symmetric] distinct_take)
    moreover have "set (take 8 (removeDuplicatesAndSort found)) \<subseteq> set found"
      using sub removeDuplicatesAndSort_best [of found] by blast
    moreover have "\<forall>r \<in> set (take 8 (removeDuplicatesAndSort found)). \<forall>m \<in> set found.
            entry_id m = entry_id r \<longrightarrow> matchScore m \<le> matchScore r"
      using sub removeDuplicatesAndSort_best [of found] by blast
    ultimately show ?thesis by blast
  qed
  show ?thesis
  proof (cases "fst (getCachedAdditives seed reply st)")
    case (Inl e)
    then have "results = []"
      using assms by (simp add: search_result)
    then show ?thesis using Inl by simp
  next
    case cache: (Inr allAdditives)
    show ?thesis
    proof (cases "found_matches lower allAdditives v")
      case (Inl e)
      then have "results = []"
        using assms cache by (simp add: search_result)
      then show ?thesis using Inl cache by simp
    next
      case (Inr found)
      then have "results = take 8 (removeDuplicatesAndSort found)"
        using assms cache by (simp add: search_result)
      then show ?thesis using ranked [of found] Inr cache by simp
    qed
  qed
qed

theorem one_result_per_entry_witness:
  "fst (searchAdditivesWithFuzzyMatching toLowerCase_latin additiveData
          (Snapshot [sample_low, sample_high]) empty_cache (Str [97, 98, 99, 32, 97, 98])) =
     Inr [partial_hit sample_high (51 / 80) [97, 98, 99],
          partial_hit sample_low (51 / 80) [97, 98, 99]]
   \<and> found_matches toLowerCase_latin [sample_low, sample_high] (Str [97, 98, 99, 32, 97, 98]) =
     Inr [partial_hit sample_low (51 / 80) [97, 98, 99],
          partial_hit sample_high (51 / 80) [97, 98, 99],
          partial_hit sample_low (17 / 40) [97, 98],
          partial_hit sample_high (17 / 40) [97, 98]]
   \<and> distinct (map entry_id [partial_hit sample_high (51 / 80) [97, 98, 99],
                              partial_hit sample_low (51 / 80) [97, 98, 99]])
   \<and> matchScore (partial_hit sample_low (17 / 40) [97, 98])
       \<le> matchScore (partial_hit sample_low (51 / 80) [97, 98, 99])"
  using search_sample found_sample one_result_per_entry [OF search_sample]
  by (simp add: cache_loads_snapshot hit_fields sample_ids)

text \<open>The sample search returns two results, within the bound of C5.\<close>

theorem search_at_most_8_witness:
  "fst (searchAdditivesWithFuzzyMatching toLowerCase_latin additiveData
          (Snapshot [sample_low, sample_high]) empty_cache (Str [97, 98, 99, 32, 97, 98])) =
     Inr [partial_hit sample_high (51 / 80) [97, 98, 99],
          partial_hit sample_low (51 / 80) [97, 98, 99]]
   \<and> length [partial_hit sample_high (51 / 80) [97, 98, 99],
              partial_hit sample_low (51 / 80) [97, 98, 99]] \<le> 8"
  using search_sample
    search_at_most_8 [of toLowerCase_latin additiveData "Snapshot [sample_low, sample_high]"
      empty_cache "Str [97, 98, 99, 32, 97, 98]"]
  by simp

subsection \<open>A hazard level that names an inherited member\<close>

lemma keywords_abc:
  "normalizeAndExtractKeywords toLowerCase_latin (Str [97, 98, 99]) = Inr [[97, 98, 99]]"
proof -
  have n: "normalized toLowerCase_latin [97, 98, 99] = [97, 98, 99]"
    by (simp add: normalized_def lower_small is_bracket_def is_space_def is_word_def trim_def)
  have r: "rawKeywords toLowerCase_latin [97, 98, 99] = [[97, 98, 99]]"
    by (simp add: rawKeywords_def common_small is_delimiter_def is_space_def trim_def)
  have k: "koreanWords [97, 98, 99] = []"
    by (simp add: koreanWords_def is_hangul_def)
  have m: "numbered_parts [97, 98, 99] = []"
    by (simp add: numbered_parts_def is_hangul_def)
  have u: "uniqueKeywords [[97, 98, 99]] = [[97, 98, 99]]"
    by (simp add: uniqueKeywords_def new_Set_def js_sort_def)
  show ?thesis
    by (simp add: normalizeAndExtractKeywords_def correct_small n r k m u
        numberedAdditives_def spacelessWords_def)
qed

lemma terms_odd:
  "scoreTerms toLowerCase_latin [97, 98, 99] [[97, 98, 99, 102]] (None, 0) =
     (Some \<lparr>best_match.matchType = Partial, best_match.matchScore = 51 / 80,
            best_match.matchedTerm = [97, 98, 99]\<rparr>, 51 / 80)"
proof -
  have l: "toLowerCase_latin [97, 98, 99, 102] = [97, 98, 99, 102]"
    by (simp add: toLowerCase_latin_def is_upper_latin_def)
  have c: "correctOCRErrors [97, 98, 99, 102] = [97, 98, 99, 102]"
    by (simp add: correctOCRErrors_def object_entries_corrections replaceAll_def)
  have n: "normalizeText toLowerCase_latin [97, 98, 99, 102] = [97, 98, 99, 102]"
    by (simp add: normalizeText_def l is_bracket_def is_space_def is_word_def)
  have p: "isPartialMatch toLowerCase_latin [97, 98, 99] [97, 98, 99, 102]"
    by (simp add: isPartialMatch_def lower_small)
  show ?thesis
    by (simp add: scoreTerm_def lower_small correct_small norm_small c n p Let_def)
qed

lemma found_odd:
  "found_matches toLowerCase_latin [sample_odd, sample_high] (Str [97, 98, 99]) =
     Inr [partial_hit sample_odd (51 / 80) [97, 98, 99],
          partial_hit sample_high (51 / 80) [97, 98, 99]]"
proof -
  have f: "name sample_odd = Some [97, 98, 99, 102]" "aliases sample_odd = Some []"
    "name sample_high = Some [97, 98, 99, 101]" "aliases sample_high = Some []"
    by (simp_all add: sample_odd_def sample_high_def)
  have l: "toLowerCase_latin [97, 98, 99, 102] = [97, 98, 99, 102]"
    by (simp add: toLowerCase_latin_def is_upper_latin_def)
  have "findAdditiveMatches toLowerCase_latin [97, 98, 99] [sample_odd, sample_high] =
     Inr [partial_hit sample_odd (51 / 80) [97, 98, 99],
          partial_hit sample_high (51 / 80) [97, 98, 99]]"
    by (simp add: f l lower_small terms_sample terms_odd partial_hit_def del: scoreTerms.simps)
  then show ?thesis
    by (simp add: found_matches_def keywords_abc del: findAdditiveMatches.simps)
qed

lemma rank_odd: "hazardRank (partial_hit sample_odd score keyword) = None"
  by (simp add: hazardRank_def hazardOrder_def object_prototype_keys_def hit_fields
      sample_odd_def)

lemma compare_odd:
  "compareMatches (partial_hit sample_odd (51 / 80) [97, 98, 99])
     (partial_hit sample_high (51 / 80) [97, 98, 99]) = NaN"
  by (simp add: compareMatches_def hit_fields rank_odd)

lemma ranked_odd:
  "removeDuplicatesAndSort
     [partial_hit sample_odd (51 / 80) [97, 98, 99],
      partial_hit sample_high (51 / 80) [97, 98, 99]] =
     [partial_hit sample_odd (51 / 80) [97, 98, 99],
      partial_hit sample_high (51 / 80) [97, 98, 99]]"
proof -
  have i: "entry_id sample_odd = [120, 51]"
    by (simp add: sample_odd_def)
  show ?thesis
    by (simp add: removeDuplicatesAndSort_def keep_best_def hit_fields sample_ids i js_sort_def
        sort_compare_def compare_odd)
qed

text \<open>
  C6 fails on the code. The catalog holds \<open>sample_odd\<close>, whose hazard level is the string
  \<open>toString\<close>, then \<open>sample_high\<close>; the input \<open>abc\<close> matches both with the same score. The
  level \<open>toString\<close> is no own key of \<open>hazardOrder\<close>, but the look-up finds the inherited
  function, which is not nullish, so the default 3 is not taken; the difference of the two
  ranks is \<open>NaN\<close>, the two results count as equal and keep their order. The entry of the
  unknown level stands before the entry of level \<open>high\<close>.
\<close>

theorem inherited_level_breaks_tie_order:
  "fst (searchAdditivesWithFuzzyMatching toLowerCase_latin additiveData
          (Snapshot [sample_odd, sample_high]) empty_cache (Str [97, 98, 99])) =
     Inr [partial_hit sample_odd (51 / 80) [97, 98, 99],
          partial_hit sample_high (51 / 80) [97, 98, 99]]
   \<and> hazard_level (partial_hit sample_odd (51 / 80) [97, 98, 99])
       = Some [116, 111, 83, 116, 114, 105, 110, 103]
   \<and> hazard_level (partial_hit sample_high (51 / 80) [97, 98, 99]) = Some [104, 105, 103, 104]
   \<and> compareMatches (partial_hit sample_odd (51 / 80) [97, 98, 99])
        (partial_hit sample_high (51 / 80) [97, 98, 99]) = NaN"
proof -
  have 1: "fst (searchAdditivesWithFuzzyMatching toLowerCase_latin additiveData
          (Snapshot [sample_odd, sample_high]) empty_cache (Str [97, 98, 99])) =
     Inr [partial_hit sample_odd (51 / 80) [97, 98, 99],
          partial_hit sample_high (51 / 80) [97, 98, 99]]"
    by (simp add: search_result cache_loads_snapshot found_odd ranked_odd)
  have 2: "hazard_level (partial_hit sample_odd (51 / 80) [97, 98, 99])
             = Some [116, 111, 83, 116, 114, 105, 110, 103]"
    "hazard_level (partial_hit sample_high (51 / 80) [97, 98, 99]) = Some [104, 105, 103, 104]"
    by (simp_all add: hit_fields sample_odd_def sample_high_def)
  from 1 2 compare_odd show ?thesis by (intro conjI)
qed

end
